theory Spec2Isabelle
  imports Main
begin

section \<open>Data model of \<open>src/handler/format.ts\<close>\<close>

text \<open>
  \<open>FormatHandler\<close> is event-driven and asynchronous. Its state is a record that every
  function takes and returns. An asynchronous function that awaits a formatting provider is
  cut at that call in two: \<open>f_begin\<close> runs up to the call, \<open>f_end\<close> runs from the moment the
  call settles, and any other event may be handled in between. The collaborators that the
  file imports are not part of it; what they answer is given by a record \<open>Env\<close>, and what
  the handler does to them is logged in the state.
\<close>

text \<open>
  Positions, ranges and text edits of the language-server protocol. Lines and characters
  are JavaScript numbers holding integers; a displacement may be negative, so they are
  \<open>int\<close>. A JavaScript string is a list of code units; one \<open>char\<close> stands for one code
  unit (code units below 256).
\<close>

record Position =
  line :: int
  character :: int

record Range =
  start :: Position
  endp :: Position

record TextEdit =
  edit_range :: Range
  newText :: string

record TextDocument =
  uri :: string
  languageId :: string

text \<open>
  The view of a document that the handler uses: \<open>doc.textDocument\<close>, \<open>doc.filetype\<close>,
  \<open>doc.attached\<close>, \<open>doc.isCommandLine\<close> and \<open>doc.getline(n)\<close> (a total lookup of the buffer's
  lines, the empty string where there is no line). \<open>doc.uri\<close> is the \<open>uri\<close> of
  \<open>doc.textDocument\<close>.
\<close>

record Document =
  textDocument :: TextDocument
  filetype :: string
  attached :: bool
  isCommandLine :: bool
  getline :: "int \<Rightarrow> string"

record FormattingOptions =
  tabSize :: nat
  insertSpaces :: bool

text \<open>The interface \<open>FormatPreferences\<close> (lines 23-29).\<close>

record FormatPreferences =
  formatOnType :: bool
  formatOnTypeFiletypes :: "string list"
  formatOnSaveFiletypes :: "string list"
  formatOnInsertLeave :: bool
  bracketEnterImprove :: bool

text \<open>
  A value thrown by a collaborator (or the rejection value of its promise). The handler only
  ever reads \<open>e.message\<close> of it: \<open>Thrown m\<close> is a value whose \<open>message\<close> property reads as
  \<open>m\<close> (\<open>None\<close> for \<open>undefined\<close>), \<open>ThrownNullish\<close> is \<open>undefined\<close> or \<open>null\<close>, on which the
  property access itself raises a \<open>TypeError\<close>.
\<close>

datatype thrown = Thrown "string option" | ThrownNullish

definition typeError :: thrown where
  "typeError = Thrown (Some ''TypeError'')"

text \<open>
  \<open>CancellationTokenSource\<close> of the protocol library, with its token: \<open>cancel()\<close> sets the flag
  and fires the listener registered through \<open>token.onCancellationRequested\<close> once,
  \<open>dispose()\<close> releases the listener and changes nothing else. \<open>disposeCount\<close> counts the
  calls of \<open>dispose()\<close>; \<open>listener\<close> holds the request name captured by the callback of
  lines 157-161.
\<close>

record CancellationTokenSource =
  isCancellationRequested :: bool
  disposeCount :: nat
  listener :: "string option"

record StatusBarItem =
  status_text :: string
  isProgress :: bool
  shown :: bool

text \<open>What the handler does to its collaborators, in the order it does it.\<close>

datatype effect =
    ApplyEdits string "TextEdit list"
  | MoveTo Position
  | ShowMessage "string option"
  | LogWarn string
  | LogError string

text \<open>
  The subscriptions the constructor makes, in source order: lines 39, 40, 61, 67, 107, 110,
  123 and 128.
\<close>

datatype handler =
    OnDidChangeConfiguration
  | OnWillSaveTextDocument
  | OnCancelEvents
  | OnEnter
  | OnInsertCharPre
  | OnTextChangedI
  | OnInsertLeave
  | OnCursorMoved

text \<open>
  A handler suspended at its provider call, with the local variables its continuation
  reads. The first component is the address of the request's token source. For an on-type
  format the others are \<open>doc\<close>, \<open>ch\<close>, \<open>insertLeave\<close>, \<open>bufnr\<close> and whether the caller is
  the \<open>Enter\<close> handler with \<open>bracketEnterImprove\<close> set.
\<close>

datatype pending =
    PendingOnType nat Document string bool nat bool
  | PendingFormat nat Document FormattingOptions
  | PendingRangeFormat nat Document Range FormattingOptions
  | PendingSave nat TextDocument FormattingOptions

fun pending_token :: "pending \<Rightarrow> nat" where
  "pending_token (PendingOnType h doc ch insertLeave bufnr bracket) = h"
| "pending_token (PendingFormat h doc options) = h"
| "pending_token (PendingRangeFormat h doc rng options) = h"
| "pending_token (PendingSave h doc options) = h"

text \<open>
  The handler's fields and the closure variables of its constructor (\<open>changedTs\<close>,
  \<open>lastInsert\<close>, \<open>leaveBufnr\<close>), together with the store of every token source created so far
  (a source's address is its index), the timers set and not yet cleared or fired (token
  source, delay in ms), the subscriptions still registered with the event bus, and the log of
  effects.
\<close>

record State =
  preferences :: FormatPreferences
  disposables :: "handler list"
  subscriptions :: "handler list"
  requestStatusItem :: StatusBarItem
  requestTokenSource :: "nat option"
  sources :: "CancellationTokenSource list"
  changedTs :: "int option"
  lastInsert :: "int option"
  leaveBufnr :: "nat option"
  timers :: "(nat \<times> nat) list"
  suspended :: "pending list"
  effects :: "effect list"

text \<open>
  The collaborators and helpers that \<open>format.ts\<close> imports and that are not part of it, as
  they answer at one moment: the workspace, the window, the snippet manager, the provider
  registry, \<open>nvim\<close>, and the helpers \<open>isWord\<close> (\<open>util/string\<close>), \<open>getChangedFromEdits\<close>
  (\<open>util/position\<close>) and \<open>synchronizeDocument\<close> (\<open>handler/helper\<close>). A call that may throw
  answers with a sum, \<open>Inl\<close> the thrown value. The cancellation token handed to a provider
  is not an argument here: how a provider answers to a cancelled token is part of how it
  answers at that moment.
\<close>

record Env =
  isWord :: "string \<Rightarrow> bool"
  getChangedFromEdits :: "Position \<Rightarrow> TextEdit list \<Rightarrow> Position option"
  getDocument :: "nat \<Rightarrow> Document option"
  workspaceDocument :: "thrown + Document option"
  getSession :: "nat \<Rightarrow> bool"
  hasOnTypeProvider :: "string \<Rightarrow> TextDocument \<Rightarrow> bool"
  hasFormatProvider :: "TextDocument \<Rightarrow> bool"
  getCursorPosition :: "thrown + Position"
  synchronizeDocument :: "Document \<Rightarrow> thrown option"
  getFormatOptions :: "string \<Rightarrow> thrown + FormattingOptions"
  provideDocumentOnTypeEdits :: "string \<Rightarrow> TextDocument \<Rightarrow> Position \<Rightarrow> thrown + TextEdit list option"
  provideDocumentFormattingEdits :: "TextDocument \<Rightarrow> FormattingOptions \<Rightarrow> thrown + TextEdit list option"
  provideDocumentRangeFormattingEdits ::
    "TextDocument \<Rightarrow> Range \<Rightarrow> FormattingOptions \<Rightarrow> thrown + TextEdit list option"
  applyEdits :: "Document \<Rightarrow> TextEdit list \<Rightarrow> thrown option"
  moveTo :: "Position \<Rightarrow> thrown option"
  getSelectedRange :: "string \<Rightarrow> Document \<Rightarrow> thrown + Range option"
  nvimEval :: "thrown + (int \<times> int \<times> string)"
  nvimLine :: "thrown + int"

definition emit :: "effect list \<Rightarrow> State \<Rightarrow> State" where
  "emit es s = s\<lparr>effects := effects s @ es\<rparr>"

section \<open>The request lifecycle manager\<close>

text \<open>The callback of lines 157-161, run when the token of request \<open>name\<close> is cancelled.\<close>

definition onCancellationRequested :: "string \<Rightarrow> State \<Rightarrow> State" where
  "onCancellationRequested name s =
     s\<lparr>requestStatusItem :=
         \<lparr>status_text = name @ '' request canceled'', isProgress = False, shown = False\<rparr>\<rparr>"

definition cancel_source :: "nat \<Rightarrow> State \<Rightarrow> State" where
  "cancel_source h s =
     (let src = sources s ! h in
      if isCancellationRequested src then s
      else
        (let s1 = s\<lparr>sources :=
                     (sources s)[h := src\<lparr>isCancellationRequested := True, listener := None\<rparr>]\<rparr>
         in case listener src of
              None \<Rightarrow> s1
            | Some name \<Rightarrow> onCancellationRequested name s1))"

definition dispose_source :: "nat \<Rightarrow> State \<Rightarrow> State" where
  "dispose_source h s =
     (let src = sources s ! h in
      s\<lparr>sources := (sources s)[h := src\<lparr>disposeCount := Suc (disposeCount src), listener := None\<rparr>]\<rparr>)"

text \<open>Lines 150-153: the source in the slot, if there is one, is cancelled and disposed.\<close>

definition cancelPrevious :: "State \<Rightarrow> State" where
  "cancelPrevious s =
     (case requestTokenSource s of
        Some old \<Rightarrow> dispose_source old (cancel_source old s)
      | None \<Rightarrow> s)"

text \<open>
  Lines 172-175: the source in the slot, if there is one, is disposed and the slot is
  emptied.
\<close>

definition releaseTokenSource :: "State \<Rightarrow> State" where
  "releaseTokenSource s =
     (case requestTokenSource s of
        Some cur \<Rightarrow> (dispose_source cur s)\<lparr>requestTokenSource := None\<rparr>
      | None \<Rightarrow> s)"

text \<open>
  \<open>withRequestToken\<close>, lines 150-164: everything up to the call of \<open>fn(token)\<close>. The result
  is the address of the new token source.
\<close>

definition withRequestToken_begin :: "string \<Rightarrow> State \<Rightarrow> nat \<times> State" where
  "withRequestToken_begin name s =
     (let s1 = cancelPrevious s;
          h = length (sources s1);
          s2 = s1\<lparr>sources := sources s1 @
                     [\<lparr>isCancellationRequested = False, disposeCount = 0, listener = Some name\<rparr>],
                  requestTokenSource := Some h\<rparr>
      in (h, s2\<lparr>requestStatusItem :=
                  \<lparr>status_text = ''requesting '' @ name, isProgress = True, shown = True\<rparr>\<rparr>))"

text \<open>
  \<open>withRequestToken\<close>, lines 172-181, with the value that \<open>res\<close> holds by then (\<open>None\<close> for
  \<open>undefined\<close> or \<open>null\<close>). \<open>h\<close> is the address of the request's own token source.
\<close>

definition withRequestToken_finish ::
  "string \<Rightarrow> nat \<Rightarrow> 'a option \<Rightarrow> State \<Rightarrow> (thrown + 'a option) \<times> State" where
  "withRequestToken_finish name h res s =
     (let s1 = releaseTokenSource s in
      if isCancellationRequested (sources s1 ! h) then (Inr None, s1)
      else
        (let s2 = s1\<lparr>requestStatusItem := (requestStatusItem s1)\<lparr>shown := False\<rparr>\<rparr>
         in (Inr res,
             if res = None then emit [LogWarn (name @ '' provider not found!'')] s2
             else s2)))"

text \<open>
  \<open>withRequestToken\<close>, lines 165-181: the continuation once \<open>fn(token)\<close> has settled with
  \<open>outcome\<close> (\<open>Inl\<close> a rejection, \<open>Inr\<close> the value it resolved with). In the \<open>catch\<close>
  block \<open>e.message\<close> raises on a nullish \<open>e\<close>, and then nothing after it runs.
\<close>

definition withRequestToken_end ::
  "string \<Rightarrow> nat \<Rightarrow> thrown + 'a option \<Rightarrow> State \<Rightarrow> (thrown + 'a option) \<times> State" where
  "withRequestToken_end name h outcome s =
     (case outcome of
        Inr res \<Rightarrow> withRequestToken_finish name h res s
      | Inl (Thrown msg) \<Rightarrow>
          withRequestToken_finish name h None
            (emit [ShowMessage msg, LogError (''Error on '' @ name)] s)
      | Inl ThrownNullish \<Rightarrow> (Inl typeError, s))"

section \<open>On-type formatting\<close>

text \<open>
  What \<open>\s\<close> matches and \<open>trim()\<close> removes, among the code units below 256: tab, line feed,
  vertical tab, form feed, carriage return, space and the no-break space.
\<close>

definition isWhiteSpace :: "char \<Rightarrow> bool" where
  "isWhiteSpace c = ((of_char c :: nat) \<in> {9, 10, 11, 12, 13, 32, 160})"

definition newline :: string where
  "newline = [CHR 0x0A]"

text \<open>
  \<open>tryFormatOnType\<close>, lines 185-196: the guards, then the start of the request. \<open>None\<close> is
  an early return; otherwise the token source's address and the document found.
\<close>

definition tryFormatOnType_begin ::
  "Env \<Rightarrow> string \<Rightarrow> nat \<Rightarrow> State \<Rightarrow> (nat \<times> Document) option \<times> State" where
  "tryFormatOnType_begin env ch bufnr s =
     (if ch = [] \<or> isWord env ch \<or> \<not> formatOnType (preferences s) then (None, s)
      else if getSession env bufnr then (None, s)
      else
        (case getDocument env bufnr of
           None \<Rightarrow> (None, s)
         | Some doc \<Rightarrow>
             if \<not> attached doc \<or> isCommandLine doc then (None, s)
             else
               (let filetypes = formatOnTypeFiletypes (preferences s) in
                if filetypes \<noteq> [] \<and> filetype doc \<notin> set filetypes then (None, s)
                else if \<not> hasOnTypeProvider env ch (textDocument doc) then (None, s)
                else
                  (let (h, s1) = withRequestToken_begin ''onTypeFormat '' s
                   in (Some (h, doc), s1)))))"

text \<open>
  The operation passed to \<open>withRequestToken\<close>, lines 196-204: the value assigned to the
  outer variable \<open>position\<close> (\<open>None\<close> while unassigned) and how the operation settles. The
  operation runs from the start of the request to its settling; \<open>env\<close> holds what its
  collaborators answered in between.
\<close>

definition onTypeOperation ::
  "Env \<Rightarrow> string \<Rightarrow> Document \<Rightarrow> bool \<Rightarrow> Position option \<times> (thrown + TextEdit list option)" where
  "onTypeOperation env ch doc insertLeave =
     (case getCursorPosition env of
        Inl e \<Rightarrow> (None, Inl e)
      | Inr position \<Rightarrow>
          (let origLine = getline doc (line position) in
           if insertLeave \<and> list_all isWhiteSpace origLine then (Some position, Inr None)
           else
             (let pos = (if insertLeave
                         then \<lparr>line = line position, character = int (length origLine)\<rparr>
                         else position)
              in case synchronizeDocument env doc of
                   Some e \<Rightarrow> (Some position, Inl e)
                 | None \<Rightarrow>
                     (Some position, provideDocumentOnTypeEdits env ch (textDocument doc) pos))))"

text \<open>
  Lines 205-209, given the captured \<open>position\<close> and what \<open>withRequestToken\<close> returned. With
  \<open>position\<close> unassigned the operation has thrown and there are no edits; the branch is kept
  for totality.
\<close>

definition applyOnTypeEdits ::
  "Env \<Rightarrow> Document \<Rightarrow> Position option \<Rightarrow> TextEdit list option \<Rightarrow> State \<Rightarrow> (thrown + unit) \<times> State" where
  "applyOnTypeEdits env doc position edits s =
     (case edits of
        None \<Rightarrow> (Inr (), s)
      | Some [] \<Rightarrow> (Inr (), s)
      | Some es \<Rightarrow>
          (case position of
             None \<Rightarrow> (Inl typeError, s)
           | Some p \<Rightarrow>
               (let changed = getChangedFromEdits env p es in
                case applyEdits env doc es of
                  Some e \<Rightarrow> (Inl e, s)
                | None \<Rightarrow>
                    (let s1 = emit [ApplyEdits (uri (textDocument doc)) es] s;
                         to = (case changed of
                                 Some c \<Rightarrow>
                                   Some \<lparr>line = line p + line c,
                                         character = character p + character c\<rparr>
                               | None \<Rightarrow> None)
                     in case to of
                          None \<Rightarrow> (Inr (), s1)
                        | Some t \<Rightarrow>
                            (case moveTo env t of
                               Some e \<Rightarrow> (Inl e, s1)
                             | None \<Rightarrow> (Inr (), emit [MoveTo t] s1))))))"

text \<open>
  \<open>tryFormatOnType\<close> from the moment its operation settles: the rest of
  \<open>withRequestToken\<close>, then lines 205-209.
\<close>

definition tryFormatOnType_end ::
  "Env \<Rightarrow> nat \<Rightarrow> string \<Rightarrow> Document \<Rightarrow> bool \<Rightarrow> State \<Rightarrow> (thrown + unit) \<times> State" where
  "tryFormatOnType_end env h ch doc insertLeave s =
     (let (position, outcome) = onTypeOperation env ch doc insertLeave
      in case withRequestToken_end ''onTypeFormat '' h outcome s of
           (Inl e, s1) \<Rightarrow> (Inl e, s1)
         | (Inr edits, s1) \<Rightarrow> applyOnTypeEdits env doc position edits s1)"

section \<open>The bracket-enter helper\<close>

text \<open>The table \<open>pairs\<close>, lines 15-21; its keys and values are one-character strings.\<close>

definition pairs :: "char \<rightharpoonup> char" where
  "pairs = map_of
     [(CHR ''<'', CHR ''>''),
      (CHR ''>'', CHR ''<''),
      (CHR ''{'', CHR ''}''),
      (CHR ''['', CHR '']''),
      (CHR ''('', CHR '')'')]"

definition trim :: "string \<Rightarrow> string" where
  "trim str = rev (dropWhile isWhiteSpace (rev (dropWhile isWhiteSpace str)))"

text \<open>\<open>str[str.length - 1]\<close> and \<open>str[0]\<close>: \<open>None\<close> for \<open>undefined\<close>.\<close>

definition lastChar :: "string \<Rightarrow> char option" where
  "lastChar str = (if str = [] then None else Some (last str))"

definition firstChar :: "string \<Rightarrow> char option" where
  "firstChar str = (case str of [] \<Rightarrow> None | c # _ \<Rightarrow> Some c)"

text \<open>\<open>str.match(/^\s*/)[0]\<close>\<close>

definition leadingWhiteSpace :: "string \<Rightarrow> string" where
  "leadingWhiteSpace str = takeWhile isWhiteSpace str"

definition bslash :: char where
  "bslash = CHR 0x5C"

text \<open>
  Lines 80-99 without the awaits: the edits pushed, in order, and the position the cursor is
  moved to. \<open>ln\<close> is the zero-based number of the current line.
\<close>

definition bracketEnterEdits ::
  "Document \<Rightarrow> int \<Rightarrow> FormattingOptions \<Rightarrow> TextEdit list \<times> Position" where
  "bracketEnterEdits doc ln opts =
     (let pre = getline doc (ln - 1);
          curr = getline doc ln;
          space = (if insertSpaces opts then replicate (tabSize opts) CHR '' '' else [CHR 0x09]);
          preIndent = leadingWhiteSpace pre;
          currIndent = leadingWhiteSpace curr;
          newText0 = newline @ preIndent @ space;
          pos = \<lparr>line = ln - 1, character = int (length pre)\<rparr>;
          edits1 =
            (if preIndent \<noteq> currIndent then
               [\<lparr>edit_range = \<lparr>start = \<lparr>line = ln, character = 0\<rparr>,
                               endp = \<lparr>line = ln, character = int (length currIndent)\<rparr>\<rparr>,
                 newText = (if filetype doc = ''vim''
                            then [CHR '' '', CHR '' '', bslash, CHR '' ''] @ preIndent
                            else preIndent)\<rparr>]
             else if filetype doc = ''vim'' then
               [\<lparr>edit_range = \<lparr>start = \<lparr>line = ln, character = int (length currIndent)\<rparr>,
                               endp = \<lparr>line = ln, character = int (length currIndent)\<rparr>\<rparr>,
                 newText = [CHR '' '', CHR '' '', bslash, CHR '' '']\<rparr>]
             else []);
          newText1 = (if filetype doc = ''vim'' then newText0 @ [bslash, CHR '' ''] else newText0)
      in (edits1 @ [\<lparr>edit_range = \<lparr>start = pos, endp = pos\<rparr>, newText = newText1\<rparr>],
          \<lparr>line = ln, character = int (length newText1) - 1\<rparr>))"

text \<open>
  The \<open>Enter\<close> handler after its on-type format, lines 71-101 (the caller has tested
  \<open>bracketEnterImprove\<close>).
\<close>

definition bracketEnter :: "Env \<Rightarrow> nat \<Rightarrow> State \<Rightarrow> (thrown + unit) \<times> State" where
  "bracketEnter env bufnr s =
     (case nvimLine env of
        Inl e \<Rightarrow> (Inl e, s)
      | Inr l \<Rightarrow>
          (let ln = l - 1 in
           case getDocument env bufnr of
             None \<Rightarrow> (Inr (), s)
           | Some doc \<Rightarrow>
               (let pre = getline doc (ln - 1);
                    curr = getline doc ln
                in case lastChar pre of
                     None \<Rightarrow> (Inr (), s)
                   | Some prevChar \<Rightarrow>
                       (case pairs prevChar of
                          None \<Rightarrow> (Inr (), s)
                        | Some closing \<Rightarrow>
                            if firstChar (trim curr) \<noteq> Some closing then (Inr (), s)
                            else
                              (case getFormatOptions env (uri (textDocument doc)) of
                                 Inl e \<Rightarrow> (Inl e, s)
                               | Inr opts \<Rightarrow>
                                   (let (edits, cursor) = bracketEnterEdits doc ln opts in
                                    case applyEdits env doc edits of
                                      Some e \<Rightarrow> (Inl e, s)
                                    | None \<Rightarrow>
                                        (let s1 = emit [ApplyEdits (uri (textDocument doc)) edits] s
                                         in case moveTo env cursor of
                                              Some e \<Rightarrow> (Inl e, s1)
                                            | None \<Rightarrow> (Inr (), emit [MoveTo cursor] s1))))))))"

section \<open>The commands \<open>documentFormat\<close> and \<open>documentRangeFormat\<close>\<close>

text \<open>
  An asynchronous function either settles before its provider call (\<open>Done\<close>, with the
  value returned or the value thrown) or is suspended at it (\<open>Await\<close>, with what its
  continuation needs).
\<close>

datatype ('r, 'c) progress = Done "thrown + 'r" | Await 'c

text \<open>\<open>documentFormat\<close>, lines 213-217, up to the provider call.\<close>

definition documentFormat_begin ::
  "Env \<Rightarrow> State \<Rightarrow> (bool, nat \<times> Document \<times> FormattingOptions) progress \<times> State" where
  "documentFormat_begin env s =
     (case workspaceDocument env of
        Inl e \<Rightarrow> (Done (Inl e), s)
      | Inr None \<Rightarrow> (Done (Inr False), s)
      | Inr (Some doc) \<Rightarrow>
          if \<not> attached doc then (Done (Inr False), s)
          else
            (case synchronizeDocument env doc of
               Some e \<Rightarrow> (Done (Inl e), s)
             | None \<Rightarrow>
                 (case getFormatOptions env (uri (textDocument doc)) of
                    Inl e \<Rightarrow> (Done (Inl e), s)
                  | Inr options \<Rightarrow>
                      (let (h, s1) = withRequestToken_begin ''format'' s
                       in (Await (h, doc, options), s1)))))"

text \<open>\<open>documentFormat\<close> from the moment the provider call settles, lines 217-224.\<close>

definition documentFormat_end ::
  "Env \<Rightarrow> nat \<Rightarrow> Document \<Rightarrow> FormattingOptions \<Rightarrow> State \<Rightarrow> (thrown + bool) \<times> State" where
  "documentFormat_end env h doc options s =
     (case withRequestToken_end ''format'' h
             (provideDocumentFormattingEdits env (textDocument doc) options) s of
        (Inl e, s1) \<Rightarrow> (Inl e, s1)
      | (Inr None, s1) \<Rightarrow> (Inr False, s1)
      | (Inr (Some textEdits), s1) \<Rightarrow>
          if length textEdits > 0 then
            (case applyEdits env doc textEdits of
               Some e \<Rightarrow> (Inl e, s1)
             | None \<Rightarrow> (Inr True, emit [ApplyEdits (uri (textDocument doc)) textEdits] s1))
          else (Inr False, s1))"

text \<open>
  Lines 231-240 of \<open>documentRangeFormat\<close>: the range (\<open>Inr\<close>), or the early settling of the
  command (\<open>Inl\<close>). \<open>mode\<close> is \<open>None\<close> when the argument is left out; the empty string is
  falsy as well. \<open>nvim.eval\<close> answers \<open>[v:lnum, v:count, mode()]\<close>.
\<close>

definition resolveRange :: "Env \<Rightarrow> string option \<Rightarrow> Document \<Rightarrow> (thrown + int) + Range" where
  "resolveRange env mode doc =
     (case (case mode of None \<Rightarrow> None | Some m \<Rightarrow> if m = [] then None else Some m) of
        Some m \<Rightarrow>
          (case getSelectedRange env m doc of
             Inl e \<Rightarrow> Inl (Inl e)
           | Inr None \<Rightarrow> Inl (Inr (- 1))
           | Inr (Some rng) \<Rightarrow> Inr rng)
      | None \<Rightarrow>
          (case nvimEval env of
             Inl e \<Rightarrow> Inl (Inl e)
           | Inr (lnum, count, m) \<Rightarrow>
               if count = 0 \<or> m = ''i'' \<or> m = ''R'' then Inl (Inr (- 1))
               else Inr \<lparr>start = \<lparr>line = lnum - 1, character = 0\<rparr>,
                         endp = \<lparr>line = lnum - 1 + count, character = 0\<rparr>\<rparr>))"

text \<open>
  \<open>documentRangeFormat\<close>, lines 228-242, up to the provider call.
\<close>

definition documentRangeFormat_begin ::
  "Env \<Rightarrow> string option \<Rightarrow> State \<Rightarrow>
   (int, nat \<times> Document \<times> Range \<times> FormattingOptions) progress \<times> State" where
  "documentRangeFormat_begin env mode s =
     (case workspaceDocument env of
        Inl e \<Rightarrow> (Done (Inl e), s)
      | Inr None \<Rightarrow> (Done (Inr (- 1)), s)
      | Inr (Some doc) \<Rightarrow>
          if \<not> attached doc then (Done (Inr (- 1)), s)
          else
            (case synchronizeDocument env doc of
               Some e \<Rightarrow> (Done (Inl e), s)
             | None \<Rightarrow>
                 (case resolveRange env mode doc of
                       Inl r \<Rightarrow> (Done r, s)
                     | Inr rng \<Rightarrow>
                         (case getFormatOptions env (uri (textDocument doc)) of
                            Inl e \<Rightarrow> (Done (Inl e), s)
                          | Inr options \<Rightarrow>
                              (let (h, s1) = withRequestToken_begin ''format'' s
                               in (Await (h, doc, rng, options), s1))))))"

text \<open>\<open>documentRangeFormat\<close> from the moment the provider call settles, lines 242-249.\<close>

definition documentRangeFormat_end ::
  "Env \<Rightarrow> nat \<Rightarrow> Document \<Rightarrow> Range \<Rightarrow> FormattingOptions \<Rightarrow> State \<Rightarrow> (thrown + int) \<times> State" where
  "documentRangeFormat_end env h doc rng options s =
     (case withRequestToken_end ''format'' h
             (provideDocumentRangeFormattingEdits env (textDocument doc) rng options) s of
        (Inl e, s1) \<Rightarrow> (Inl e, s1)
      | (Inr None, s1) \<Rightarrow> (Inr (- 1), s1)
      | (Inr (Some textEdits), s1) \<Rightarrow>
          if length textEdits > 0 then
            (case applyEdits env doc textEdits of
               Some e \<Rightarrow> (Inl e, s1)
             | None \<Rightarrow> (Inr 0, emit [ApplyEdits (uri (textDocument doc)) textEdits] s1))
          else (Inr (- 1), s1))"

section \<open>Formatting on save\<close>

text \<open>
  \<open>willSaveWaitUntil\<close>, lines 45-53, up to the provider call: the token source is a local
  one, and a timer of 1000 ms is set to cancel it.
\<close>

definition willSaveWaitUntil_begin ::
  "Env \<Rightarrow> TextDocument \<Rightarrow> State \<Rightarrow>
   (TextEdit list option, nat \<times> TextDocument \<times> FormattingOptions) progress \<times> State" where
  "willSaveWaitUntil_begin env document s =
     (if \<not> hasFormatProvider env document then
        (Done (Inr None), emit [LogWarn (''Format provider not found for '' @ uri document)] s)
      else
        (case getFormatOptions env (uri document) of
           Inl e \<Rightarrow> (Done (Inl e), s)
         | Inr options \<Rightarrow>
             (let h = length (sources s)
              in (Await (h, document, options),
                  s\<lparr>sources := sources s @
                       [\<lparr>isCancellationRequested = False, disposeCount = 0, listener = None\<rparr>],
                    timers := timers s @ [(h, 1000)]\<rparr>))))"

text \<open>
  \<open>willSaveWaitUntil\<close> from the moment the provider call settles, lines 54-56: the value
  handed to \<open>event.waitUntil\<close>. If the call rejects, \<open>clearTimeout\<close> is not reached.
\<close>

definition willSaveWaitUntil_end ::
  "Env \<Rightarrow> nat \<Rightarrow> TextDocument \<Rightarrow> FormattingOptions \<Rightarrow> State \<Rightarrow>
   (thrown + TextEdit list option) \<times> State" where
  "willSaveWaitUntil_end env h document options s =
     (case provideDocumentFormattingEdits env document options of
        Inl e \<Rightarrow> (Inl e, s)
      | Inr textEdits \<Rightarrow> (Inr textEdits, s\<lparr>timers := filter (\<lambda>t. fst t \<noteq> h) (timers s)\<rparr>))"

text \<open>The timer callback of lines 51-53 for the token source at \<open>h\<close>, if that timer is still set.\<close>

definition timerFires :: "nat \<Rightarrow> State \<Rightarrow> State" where
  "timerFires h s =
     (if h \<in> fst ` set (timers s)
      then cancel_source h (s\<lparr>timers := filter (\<lambda>t. fst t \<noteq> h) (timers s)\<rparr>)
      else s)"

text \<open>The handler of \<open>onWillSaveTextDocument\<close>, lines 40-60.\<close>

definition onWillSaveTextDocument :: "Env \<Rightarrow> TextDocument \<Rightarrow> State \<Rightarrow> State" where
  "onWillSaveTextDocument env document s =
     (let filetypes = formatOnSaveFiletypes (preferences s) in
      if languageId document \<in> set filetypes \<or> list_ex (\<lambda>item. item = ''*'') filetypes then
        (case willSaveWaitUntil_begin env document s of
           (Done r, s1) \<Rightarrow> s1
         | (Await (h, d, options), s1) \<Rightarrow> s1\<lparr>suspended := suspended s1 @ [PendingSave h d options]\<rparr>)
      else s)"

section \<open>The event handlers of the constructor\<close>

text \<open>Lines 61-66: the handler of the six cursor and text events.\<close>

definition onCancelEvents :: "State \<Rightarrow> State" where
  "onCancelEvents s =
     (case requestTokenSource s of
        Some h \<Rightarrow> (cancel_source h s)\<lparr>requestTokenSource := None\<rparr>
      | None \<Rightarrow> s)"

text \<open>Lines 107-109; \<open>now\<close> is what \<open>Date.now()\<close> answers.\<close>

definition onInsertCharPre :: "int \<Rightarrow> State \<Rightarrow> State" where
  "onInsertCharPre now s = s\<lparr>lastInsert := Some now\<rparr>"

text \<open>
  Lines 110-121, up to the call of \<open>tryFormatOnType\<close>: the new state and the arguments of that
  call, if it is made. \<open>pre\<close> is \<open>info.pre\<close>. A number is falsy when it is \<open>0\<close>.
\<close>

definition onTextChangedI ::
  "Env \<Rightarrow> int \<Rightarrow> nat \<Rightarrow> string \<Rightarrow> State \<Rightarrow> (string \<times> nat) option \<times> State" where
  "onTextChangedI env now bufnr pre s =
     (let s1 = s\<lparr>changedTs := Some now\<rparr> in
      case lastInsert s1 of
        None \<Rightarrow> (None, s1)
      | Some t \<Rightarrow>
          if t = 0 \<or> now - t > 300 then (None, s1)
          else
            (let s2 = s1\<lparr>lastInsert := None\<rparr> in
             case getDocument env bufnr of
               None \<Rightarrow> (None, s2)
             | Some doc \<Rightarrow>
                 if isCommandLine doc \<or> \<not> attached doc then (None, s2)
                 else if pre = [] then (None, s2)
                 else if formatOnType (preferences s2) \<and> \<not> isWord env [last pre]
                 then (Some ([last pre], bufnr), s2)
                 else (None, s2)))"

text \<open>Lines 123-127.\<close>

definition onInsertLeave :: "nat \<Rightarrow> State \<Rightarrow> State" where
  "onInsertLeave bufnr s =
     (if \<not> formatOnInsertLeave (preferences s) \<or> \<not> formatOnType (preferences s) then s
      else s\<lparr>leaveBufnr := Some bufnr\<rparr>)"

text \<open>
  Lines 128-133, up to the call of \<open>tryFormatOnType\<close>: whether the call is made, and the new
  state.
\<close>

definition onCursorMoved :: "nat \<Rightarrow> State \<Rightarrow> bool \<times> State" where
  "onCursorMoved bufnr s =
     (case leaveBufnr s of
        None \<Rightarrow> (False, s)
      | Some b \<Rightarrow>
          if b \<noteq> 0 \<and> b = bufnr then (True, s\<lparr>leaveBufnr := None\<rparr>) else (False, s))"

text \<open>
  \<open>loadPreferences\<close>, lines 136-147, called with a change event: \<open>affects\<close> is what
  \<open>e.affectsConfiguration('coc.preferences')\<close> answers and \<open>config\<close> what the configuration
  holds, defaults filled in.
\<close>

definition loadPreferences :: "bool \<Rightarrow> FormatPreferences \<Rightarrow> State \<Rightarrow> State" where
  "loadPreferences affects config s = (if affects then s\<lparr>preferences := config\<rparr> else s)"

text \<open>
  Modelled from the spec: \<open>disposeAll\<close> of \<open>util/index.ts\<close>, which is not under src. The
  spec has the event bus support "unsubscription as part of bulk disposal": every
  subscription in the list is released, and the list is emptied.
\<close>

definition disposeAll :: "handler list \<Rightarrow> State \<Rightarrow> State" where
  "disposeAll ds s =
     s\<lparr>subscriptions := filter (\<lambda>x. x \<notin> set ds) (subscriptions s), disposables := []\<rparr>"

text \<open>\<open>dispose\<close>, lines 252-254.\<close>

definition dispose :: "State \<Rightarrow> State" where
  "dispose s = disposeAll (disposables s) s"

text \<open>
  The constructor, lines 36-134, with the preferences first loaded from \<open>config\<close>: eight
  subscriptions are made, and seven of them are handed the list \<open>this.disposables\<close> (the
  subscription of line 128 is not).
\<close>

definition constructor :: "FormatPreferences \<Rightarrow> State" where
  "constructor config =
     \<lparr>preferences = config,
      disposables = [OnDidChangeConfiguration, OnWillSaveTextDocument, OnCancelEvents, OnEnter,
                     OnInsertCharPre, OnTextChangedI, OnInsertLeave],
      subscriptions = [OnDidChangeConfiguration, OnWillSaveTextDocument, OnCancelEvents, OnEnter,
                       OnInsertCharPre, OnTextChangedI, OnInsertLeave, OnCursorMoved],
      requestStatusItem = \<lparr>status_text = [], isProgress = True, shown = False\<rparr>,
      requestTokenSource = None,
      sources = [],
      changedTs = None,
      lastInsert = None,
      leaveBufnr = None,
      timers = [],
      suspended = [],
      effects = []\<rparr>"

section \<open>The handler as a transition system\<close>

text \<open>
  What can happen to the handler: an editor event is delivered, the workspace announces a
  save or a configuration change, a command is called, the provider call of a suspended
  request settles, or a timer fires. \<open>TextChangedI now bufnr pre\<close> and \<open>InsertCharPre now\<close>
  carry what \<open>Date.now()\<close> answers.
\<close>

datatype event =
    CursorMoved nat
  | CursorMovedI
  | InsertEnter
  | TextChangedI int nat string
  | TextChangedP
  | TextChanged
  | Enter nat
  | InsertCharPre int
  | InsertLeave nat
  | WillSaveTextDocument TextDocument
  | DidChangeConfiguration bool FormatPreferences
  | CallDocumentFormat
  | CallDocumentRangeFormat "string option"
  | CallDispose
  | Settles nat
  | TimerFires nat

text \<open>
  A call of \<open>tryFormatOnType\<close> from a handler, run to its first suspension. \<open>bracket\<close> says
  that the caller is the \<open>Enter\<close> handler with \<open>bracketEnterImprove\<close> set, which goes on
  with the bracket helper once \<open>tryFormatOnType\<close> has returned.
\<close>

definition startOnType :: "Env \<Rightarrow> string \<Rightarrow> nat \<Rightarrow> bool \<Rightarrow> bool \<Rightarrow> State \<Rightarrow> State" where
  "startOnType env ch bufnr insertLeave bracket s =
     (case tryFormatOnType_begin env ch bufnr s of
        (None, s1) \<Rightarrow> if bracket then snd (bracketEnter env bufnr s1) else s1
      | (Some (h, doc), s1) \<Rightarrow>
          s1\<lparr>suspended := suspended s1 @ [PendingOnType h doc ch insertLeave bufnr bracket]\<rparr>)"

text \<open>The continuation of a suspended handler, run when its provider call settles.\<close>

fun settle :: "Env \<Rightarrow> pending \<Rightarrow> State \<Rightarrow> State" where
  "settle env (PendingOnType h doc ch insertLeave bufnr bracket) s =
     (case tryFormatOnType_end env h ch doc insertLeave s of
        (Inl e, s1) \<Rightarrow> s1
      | (Inr u, s1) \<Rightarrow> if bracket then snd (bracketEnter env bufnr s1) else s1)"
| "settle env (PendingFormat h doc options) s = snd (documentFormat_end env h doc options s)"
| "settle env (PendingRangeFormat h doc rng options) s =
     snd (documentRangeFormat_end env h doc rng options s)"
| "settle env (PendingSave h document options) s =
     snd (willSaveWaitUntil_end env h document options s)"

definition subscribed :: "handler \<Rightarrow> State \<Rightarrow> bool" where
  "subscribed x s = (x \<in> set (subscriptions s))"

definition whenSubscribed :: "handler \<Rightarrow> (State \<Rightarrow> State) \<Rightarrow> State \<Rightarrow> State" where
  "whenSubscribed x f s = (if subscribed x s then f s else s)"

text \<open>
  One event, with the collaborators as they answer while it is handled. An event reaches
  the handlers subscribed to it in the order of their subscription; the commands and the
  continuations do not depend on a subscription.
\<close>

fun step :: "Env \<Rightarrow> event \<Rightarrow> State \<Rightarrow> State" where
  "step env (CursorMoved bufnr) s =
     whenSubscribed OnCursorMoved
       (\<lambda>s1. case onCursorMoved bufnr s1 of
                (True, s2) \<Rightarrow> startOnType env newline bufnr True False s2
              | (False, s2) \<Rightarrow> s2)
       (whenSubscribed OnCancelEvents onCancelEvents s)"
| "step env CursorMovedI s = whenSubscribed OnCancelEvents onCancelEvents s"
| "step env InsertEnter s = whenSubscribed OnCancelEvents onCancelEvents s"
| "step env (TextChangedI now bufnr pre) s =
     whenSubscribed OnTextChangedI
       (\<lambda>s1. case onTextChangedI env now bufnr pre s1 of
                (Some (ch, b), s2) \<Rightarrow> startOnType env ch b False False s2
              | (None, s2) \<Rightarrow> s2)
       (whenSubscribed OnCancelEvents onCancelEvents s)"
| "step env TextChangedP s = whenSubscribed OnCancelEvents onCancelEvents s"
| "step env TextChanged s = whenSubscribed OnCancelEvents onCancelEvents s"
| "step env (Enter bufnr) s =
     whenSubscribed OnEnter
       (\<lambda>s1. startOnType env newline bufnr False (bracketEnterImprove (preferences s1)) s1) s"
| "step env (InsertCharPre now) s = whenSubscribed OnInsertCharPre (onInsertCharPre now) s"
| "step env (InsertLeave bufnr) s = whenSubscribed OnInsertLeave (onInsertLeave bufnr) s"
| "step env (WillSaveTextDocument document) s =
     whenSubscribed OnWillSaveTextDocument (onWillSaveTextDocument env document) s"
| "step env (DidChangeConfiguration affects config) s =
     whenSubscribed OnDidChangeConfiguration (loadPreferences affects config) s"
| "step env CallDocumentFormat s =
     (case documentFormat_begin env s of
        (Done r, s1) \<Rightarrow> s1
      | (Await (h, doc, options), s1) \<Rightarrow>
          s1\<lparr>suspended := suspended s1 @ [PendingFormat h doc options]\<rparr>)"
| "step env (CallDocumentRangeFormat mode) s =
     (case documentRangeFormat_begin env mode s of
        (Done r, s1) \<Rightarrow> s1
      | (Await (h, doc, rng, options), s1) \<Rightarrow>
          s1\<lparr>suspended := suspended s1 @ [PendingRangeFormat h doc rng options]\<rparr>)"
| "step env CallDispose s = dispose s"
| "step env (Settles h) s =
     (case find (\<lambda>p. pending_token p = h) (suspended s) of
        None \<Rightarrow> s
      | Some p \<Rightarrow>
          settle env p (s\<lparr>suspended := filter (\<lambda>q. pending_token q \<noteq> h) (suspended s)\<rparr>))"
| "step env (TimerFires h) s = timerFires h s"

fun run :: "(Env \<times> event) list \<Rightarrow> State \<Rightarrow> State" where
  "run [] s = s"
| "run ((env, ev) # evs) s = run evs (step env ev s)"

text \<open>
  The requests in flight: the suspended requests whose token has not been cancelled, by the
  address of their token source.
\<close>

definition inFlight :: "State \<Rightarrow> nat list" where
  "inFlight s =
     filter (\<lambda>h. \<not> isCancellationRequested (sources s ! h)) (map pending_token (suspended s))"

section \<open>Collaborators for the worked examples\<close>

text \<open>
  Modelled from the spec: \<open>isWord\<close> of \<open>util/string.ts\<close>, which is not under src. The spec
  gives \<open>a\<close>, \<open>1\<close> and \<open>_\<close> as word characters: the letters, the digits and the underscore.
  It is used in the examples only; the theorems hold for every \<open>isWord\<close>.
\<close>

definition isWordAscii :: "string \<Rightarrow> bool" where
  "isWordAscii str =
     (case str of
        [] \<Rightarrow> False
      | c # _ \<Rightarrow>
          (let n = (of_char c :: nat)
           in n = 95 \<or> (48 \<le> n \<and> n \<le> 57) \<or> (65 \<le> n \<and> n \<le> 90) \<or> (97 \<le> n \<and> n \<le> 122)))"

definition examplePreferences :: FormatPreferences where
  "examplePreferences =
     \<lparr>formatOnType = True,
      formatOnTypeFiletypes = [],
      formatOnSaveFiletypes = [''*''],
      formatOnInsertLeave = True,
      bracketEnterImprove = True\<rparr>"

definition exampleTextDocument :: TextDocument where
  "exampleTextDocument = \<lparr>uri = ''file:///a.ts'', languageId = ''typescript''\<rparr>"

text \<open>A buffer of two lines, \<open>f(x) {\<close> and \<open>}\<close>; every other line reads as empty.\<close>

definition exampleDocument :: Document where
  "exampleDocument =
     \<lparr>textDocument = exampleTextDocument,
      filetype = ''typescript'',
      attached = True,
      isCommandLine = False,
      getline = (\<lambda>n. if n = 0 then ''f(x) {'' else if n = 1 then ''}'' else [])\<rparr>"

text \<open>The same buffer with a blank after the opening brace: \<open>f(x) { \<close> and \<open>}\<close>.\<close>

definition trailingBlankDocument :: Document where
  "trailingBlankDocument =
     \<lparr>textDocument = exampleTextDocument,
      filetype = ''typescript'',
      attached = True,
      isCommandLine = False,
      getline = (\<lambda>n. if n = 0 then ''f(x) { '' else if n = 1 then ''}'' else [])\<rparr>"


definition exampleEdit :: TextEdit where
  "exampleEdit =
     \<lparr>edit_range = \<lparr>start = \<lparr>line = 0, character = 0\<rparr>, endp = \<lparr>line = 0, character = 0\<rparr>\<rparr>,
      newText = ''  ''\<rparr>"

text \<open>
  Collaborators that all succeed: buffer 1 is the example document, the cursor is at line 3,
  character 5, every provider answers with the one example edit, whose displacement is two
  lines down and five characters to the left, and the editor reports line 2 as the current
  line.
\<close>

definition exampleEnv :: Env where
  "exampleEnv =
     \<lparr>isWord = isWordAscii,
      getChangedFromEdits = (\<lambda>p es. Some \<lparr>line = 2, character = - 5\<rparr>),
      getDocument = (\<lambda>b. if b = 1 then Some exampleDocument else None),
      workspaceDocument = Inr (Some exampleDocument),
      getSession = (\<lambda>b. False),
      hasOnTypeProvider = (\<lambda>ch d. True),
      hasFormatProvider = (\<lambda>d. True),
      getCursorPosition = Inr \<lparr>line = 3, character = 5\<rparr>,
      synchronizeDocument = (\<lambda>d. None),
      getFormatOptions = (\<lambda>u. Inr \<lparr>tabSize = 2, insertSpaces = True\<rparr>),
      provideDocumentOnTypeEdits = (\<lambda>ch d p. Inr (Some [exampleEdit])),
      provideDocumentFormattingEdits = (\<lambda>d opts. Inr (Some [exampleEdit])),
      provideDocumentRangeFormattingEdits = (\<lambda>d r opts. Inr (Some [exampleEdit])),
      applyEdits = (\<lambda>d es. None),
      moveTo = (\<lambda>p. None),
      getSelectedRange = (\<lambda>m d. Inr None),
      nvimEval = Inr (1, 1, ''n''),
      nvimLine = Inr 2\<rparr>"

text \<open>The same collaborators with buffer 1 holding another document.\<close>

definition trailingBlankEnv :: Env where
  "trailingBlankEnv =
     exampleEnv\<lparr>getDocument := (\<lambda>b. if b = 1 then Some trailingBlankDocument else None)\<rparr>"


text \<open>The same collaborators, but \<open>synchronizeDocument\<close> throws.\<close>

definition syncFailsEnv :: Env where
  "syncFailsEnv =
     exampleEnv\<lparr>synchronizeDocument := (\<lambda>d. Some (Thrown (Some ''sync failed'')))\<rparr>"

text \<open>The same collaborators, but the document and range format providers reject.\<close>

definition providerFailsEnv :: Env where
  "providerFailsEnv =
     exampleEnv\<lparr>provideDocumentFormattingEdits :=
                   (\<lambda>d opts. Inl (Thrown (Some ''provider failed''))),
                 provideDocumentRangeFormattingEdits :=
                   (\<lambda>d r opts. Inl (Thrown (Some ''provider failed'')))\<rparr>"

section \<open>Invariants of the transition system\<close>

text \<open>The part of the state that the request slot, the subscriptions and the timers live in.\<close>

definition core ::
  "State \<Rightarrow> nat option \<times> CancellationTokenSource list \<times> handler list \<times> handler list \<times>
            (nat \<times> nat) list" where
  "core s = (requestTokenSource s, sources s, subscriptions s, disposables s, timers s)"

text \<open>The source in the slot is one of the store and has not been disposed.\<close>

definition slotFresh :: "State \<Rightarrow> bool" where
  "slotFresh s =
     (case requestTokenSource s of
        None \<Rightarrow> True
      | Some h \<Rightarrow> h < length (sources s) \<and> disposeCount (sources s ! h) = 0)"

definition disposedAtMostOnce :: "State \<Rightarrow> bool" where
  "disposedAtMostOnce s = list_all (\<lambda>src. disposeCount src \<le> 1) (sources s)"

text \<open>The seven subscriptions that the constructor hands \<open>this.disposables\<close>.\<close>

definition disposableHandlers :: "handler list" where
  "disposableHandlers =
     [OnDidChangeConfiguration, OnWillSaveTextDocument, OnCancelEvents, OnEnter,
      OnInsertCharPre, OnTextChangedI, OnInsertLeave]"

text \<open>
  Either \<open>dispose\<close> has not run and the list is whole, or none of the seven is
  subscribed any more.
\<close>

definition disposablesTracked :: "State \<Rightarrow> bool" where
  "disposablesTracked s =
     (disposables s = disposableHandlers \<or>
      list_all (\<lambda>x. x \<notin> set (subscriptions s)) disposableHandlers)"

text \<open>
  The events that reach none but handlers subscribed with \<open>this.disposables\<close>. \<open>CursorMoved\<close>
  also reaches the handler of line 128.
\<close>

fun reachesDisposablesOnly :: "event \<Rightarrow> bool" where
  "reachesDisposablesOnly (CursorMoved bufnr) = False"
| "reachesDisposablesOnly CursorMovedI = True"
| "reachesDisposablesOnly InsertEnter = True"
| "reachesDisposablesOnly (TextChangedI now bufnr pre) = True"
| "reachesDisposablesOnly TextChangedP = True"
| "reachesDisposablesOnly TextChanged = True"
| "reachesDisposablesOnly (Enter bufnr) = True"
| "reachesDisposablesOnly (InsertCharPre now) = True"
| "reachesDisposablesOnly (InsertLeave bufnr) = True"
| "reachesDisposablesOnly (WillSaveTextDocument document) = True"
| "reachesDisposablesOnly (DidChangeConfiguration affects config) = True"
| "reachesDisposablesOnly CallDocumentFormat = False"
| "reachesDisposablesOnly (CallDocumentRangeFormat mode) = False"
| "reachesDisposablesOnly CallDispose = False"
| "reachesDisposablesOnly (Settles h) = False"
| "reachesDisposablesOnly (TimerFires h) = False"

text \<open>The effects on the buffer and the cursor.\<close>

fun isBufferEffect :: "effect \<Rightarrow> bool" where
  "isBufferEffect (ApplyEdits u es) = True"
| "isBufferEffect (MoveTo p) = True"
| "isBufferEffect (ShowMessage m) = False"
| "isBufferEffect (LogWarn m) = False"
| "isBufferEffect (LogError m) = False"

section \<open>Worked traces\<close>

text \<open>
  A save of the example document starts a save-time format, and before its provider answers
  the command \<open>documentFormat\<close> is called.
\<close>

definition traceSaveThenFormat :: State where
  "traceSaveThenFormat =
     run [(exampleEnv, WillSaveTextDocument exampleTextDocument),
          (exampleEnv, CallDocumentFormat)]
       (constructor examplePreferences)"

text \<open>A document format has been started and its provider has not answered yet.\<close>

definition traceFormatStarted :: State where
  "traceFormatStarted = run [(exampleEnv, CallDocumentFormat)] (constructor examplePreferences)"

text \<open>
  A document format is started, the cursor moves before the provider answers, the provider
  answers, and at last the handler is disposed.
\<close>

definition traceCancelledByCursorMove :: State where
  "traceCancelledByCursorMove =
     run [(exampleEnv, CallDocumentFormat),
          (exampleEnv, CursorMoved 1),
          (exampleEnv, Settles 0),
          (exampleEnv, CallDispose)]
       (constructor examplePreferences)"

text \<open>A document format is started and the cursor moves before the provider answers.\<close>

definition traceFormatCancelled :: State where
  "traceFormatCancelled =
     run [(exampleEnv, CallDocumentFormat), (exampleEnv, CursorMoved 1)]
       (constructor examplePreferences)"

text \<open>
  Insert mode is left in buffer 1, a document format is started, and the handler is disposed
  while the provider has not answered.
\<close>

definition traceDisposedWhileFormatting :: State where
  "traceDisposedWhileFormatting =
     run [(exampleEnv, InsertLeave 1),
          (exampleEnv, CallDocumentFormat),
          (exampleEnv, CallDispose)]
       (constructor examplePreferences)"

text \<open>
  A save of the example document starts a save-time format, and the timer fires before the
  provider has answered.
\<close>

definition traceSaveTimedOut :: State where
  "traceSaveTimedOut =
     run [(exampleEnv, WillSaveTextDocument exampleTextDocument),
          (exampleEnv, TimerFires 0)]
       (constructor examplePreferences)"

text \<open>
  Three calls of \<open>documentFormat\<close>, the provider call of the first one settling between the
  second and the third.
\<close>

definition traceThreeFormats :: State where
  "traceThreeFormats =
     run [(exampleEnv, CallDocumentFormat),
          (exampleEnv, CallDocumentFormat),
          (exampleEnv, Settles 0),
          (exampleEnv, CallDocumentFormat)]
       (constructor examplePreferences)"

section \<open>Token sources: what cancelling and disposing change\<close>

lemma isCancellationRequested_dispose_source [simp]:
  "isCancellationRequested (sources (dispose_source c s) ! h) =
   isCancellationRequested (sources s ! h)"
  by (cases "c < length (sources s)"; cases "c = h")
     (simp_all add: dispose_source_def Let_def list_update_beyond)

lemma withRequestToken_end_live:
  assumes "\<not> isCancellationRequested (sources s ! h)"
  shows "fst (withRequestToken_end name h (Inr (Some r)) s) = Inr (Some r)"
    and "effects (snd (withRequestToken_end name h (Inr (Some r)) s)) = effects s"
  using assms
  by (simp_all add: withRequestToken_end_def withRequestToken_finish_def releaseTokenSource_def
      Let_def split: option.splits)
     (simp_all add: dispose_source_def Let_def)

section \<open>Cursor displacement after an on-type format\<close>

text \<open>
  C5. An on-type format whose request is not cancelled and whose provider answers with a
  non-empty list of edits, the cursor having been captured at \<open>P\<close>: the edits are applied,
  and then the cursor is moved to \<open>P + D\<close> (line plus line, character plus character) when
  \<open>getChangedFromEdits\<close> computes the displacement \<open>D\<close> from \<open>P\<close> and the edits; when it
  computes none, no cursor move follows the edits. In insert-leave mode \<open>P\<close> is still the
  captured cursor, not the end of line handed to the provider.
\<close>

theorem cursor_displacement:
  assumes cursor: "getCursorPosition env = Inr P"
    and line_ok: "\<not> (insertLeave \<and> list_all isWhiteSpace (getline doc (line P)))"
    and sync: "synchronizeDocument env doc = None"
    and provided:
      "provideDocumentOnTypeEdits env ch (textDocument doc)
         (if insertLeave
          then \<lparr>line = line P, character = int (length (getline doc (line P)))\<rparr>
          else P) = Inr (Some edits)"
    and nonempty: "edits \<noteq> []"
    and live: "\<not> isCancellationRequested (sources s ! h)"
    and applied: "applyEdits env doc edits = None"
    and moved: "\<And>t. moveTo env t = None"
  shows "effects (snd (tryFormatOnType_end env h ch doc insertLeave s)) =
           effects s @ [ApplyEdits (uri (textDocument doc)) edits] @
           (case getChangedFromEdits env P edits of
              Some D \<Rightarrow>
                [MoveTo \<lparr>line = line P + line D, character = character P + character D\<rparr>]
            | None \<Rightarrow> [])"
proof -
  have op: "onTypeOperation env ch doc insertLeave = (Some P, Inr (Some edits))"
    using cursor line_ok sync provided by (auto simp add: onTypeOperation_def Let_def)
  obtain s1 where w:
      "withRequestToken_end ''onTypeFormat '' h (Inr (Some edits)) s = (Inr (Some edits), s1)"
    and e1: "effects s1 = effects s"
    using withRequestToken_end_live [OF live, of "''onTypeFormat ''" edits]
    by (cases "withRequestToken_end ''onTypeFormat '' h (Inr (Some edits)) s") auto
  obtain e es where ees: "edits = e # es"
    using nonempty by (cases edits) auto
  have "effects (snd (applyOnTypeEdits env doc (Some P) (Some edits) s1)) =
           effects s1 @ [ApplyEdits (uri (textDocument doc)) edits] @
           (case getChangedFromEdits env P edits of
              Some D \<Rightarrow>
                [MoveTo \<lparr>line = line P + line D, character = character P + character D\<rparr>]
            | None \<Rightarrow> [])"
    using applied moved unfolding ees
    by (simp add: applyOnTypeEdits_def Let_def emit_def split: option.splits)
  then show ?thesis
    by (simp add: tryFormatOnType_end_def op w e1)
qed

text \<open>
  The example of the specification: the cursor at line 3, character 5, and a displacement of
  two lines and minus five characters put the cursor at line 5, character 0.
\<close>

theorem cursor_displacement_witness:
  "effects (snd (tryFormatOnType_end exampleEnv 0 ''}'' exampleDocument False
      (snd (withRequestToken_begin ''onTypeFormat '' (constructor examplePreferences))))) =
   [ApplyEdits ''file:///a.ts'' [exampleEdit], MoveTo \<lparr>line = 5, character = 0\<rparr>]"
proof -
  let ?s = "snd (withRequestToken_begin ''onTypeFormat '' (constructor examplePreferences))"
  have 1: "getCursorPosition exampleEnv = Inr \<lparr>line = 3, character = 5\<rparr>"
    by (simp add: exampleEnv_def)
  have 2: "\<not> (False \<and> list_all isWhiteSpace
              (getline exampleDocument (line \<lparr>line = 3, character = 5\<rparr>)))"
    by simp
  have 3: "synchronizeDocument exampleEnv exampleDocument = None"
    by (simp add: exampleEnv_def)
  have 4: "provideDocumentOnTypeEdits exampleEnv ''}'' (textDocument exampleDocument)
         (if False
          then \<lparr>line = line \<lparr>line = 3, character = 5\<rparr>,
                character = int (length (getline exampleDocument
                  (line \<lparr>line = 3, character = 5\<rparr>)))\<rparr>
          else \<lparr>line = 3, character = 5\<rparr>) = Inr (Some [exampleEdit])"
    by (simp add: exampleEnv_def)
  have 5: "[exampleEdit] \<noteq> []"
    by simp
  have 6: "\<not> isCancellationRequested (sources ?s ! 0)"
    by (simp add: withRequestToken_begin_def cancelPrevious_def constructor_def Let_def)
  have 7: "applyEdits exampleEnv exampleDocument [exampleEdit] = None"
    by (simp add: exampleEnv_def)
  have 8: "\<And>t. moveTo exampleEnv t = None"
    by (simp add: exampleEnv_def)
  show ?thesis
    using cursor_displacement [OF 1 2 3 4 5 6 7 8]
    by (simp add: exampleEnv_def exampleDocument_def exampleTextDocument_def
        withRequestToken_begin_def cancelPrevious_def constructor_def Let_def)
qed

section \<open>Frame lemmas: what each function leaves alone\<close>

lemma core_emit [simp]: "core (emit es s) = core s"
  by (simp add: core_def emit_def)

lemma core_suspended_update [simp]: "core (s\<lparr>suspended := x\<rparr>) = core s"
  by (simp add: core_def)

lemma core_requestStatusItem_update [simp]: "core (s\<lparr>requestStatusItem := x\<rparr>) = core s"
  by (simp add: core_def)

lemma core_bracketEnter [simp]: "core (snd (bracketEnter env b s)) = core s"
  by (simp add: bracketEnter_def Let_def split: sum.splits option.splits prod.splits)

lemma core_applyOnTypeEdits [simp]: "core (snd (applyOnTypeEdits env doc p edits s)) = core s"
  by (simp add: applyOnTypeEdits_def Let_def split: option.splits list.splits)

lemma cancel_source_fields [simp]:
  "requestTokenSource (cancel_source c s) = requestTokenSource s"
  "subscriptions (cancel_source c s) = subscriptions s"
  "disposables (cancel_source c s) = disposables s"
  "timers (cancel_source c s) = timers s"
  "length (sources (cancel_source c s)) = length (sources s)"
  by (simp_all add: cancel_source_def onCancellationRequested_def Let_def split: option.splits)

lemma dispose_source_fields [simp]:
  "requestTokenSource (dispose_source c s) = requestTokenSource s"
  "subscriptions (dispose_source c s) = subscriptions s"
  "disposables (dispose_source c s) = disposables s"
  "timers (dispose_source c s) = timers s"
  "length (sources (dispose_source c s)) = length (sources s)"
  by (simp_all add: dispose_source_def Let_def)

lemma sources_cancel_source:
  "sources (cancel_source c s) =
     (if isCancellationRequested (sources s ! c) then sources s
      else (sources s)[c := (sources s ! c)\<lparr>isCancellationRequested := True, listener := None\<rparr>])"
  by (simp add: cancel_source_def onCancellationRequested_def Let_def split: option.splits)

lemma disposeCount_cancel_source [simp]:
  "disposeCount (sources (cancel_source c s) ! h) = disposeCount (sources s ! h)"
  by (cases "c < length (sources s)"; cases "c = h")
     (simp_all add: sources_cancel_source list_update_beyond)

lemma isCancellationRequested_cancel_source:
  "isCancellationRequested (sources (cancel_source c s) ! h) =
     (if c = h \<and> h < length (sources s) then True
      else isCancellationRequested (sources s ! h))"
  by (cases "c < length (sources s)"; cases "c = h")
     (simp_all add: sources_cancel_source list_update_beyond)

lemma disposeCount_dispose_source:
  "disposeCount (sources (dispose_source c s) ! h) =
     (if c = h \<and> h < length (sources s) then Suc (disposeCount (sources s ! h))
      else disposeCount (sources s ! h))"
  by (cases "c < length (sources s)"; cases "c = h")
     (simp_all add: dispose_source_def Let_def list_update_beyond)

lemma core_releaseTokenSource_cong:
  "core s = core s' \<Longrightarrow> core (releaseTokenSource s) = core (releaseTokenSource s')"
  by (simp add: core_def releaseTokenSource_def dispose_source_def Let_def split: option.splits)

lemma core_withRequestToken_end:
  "core (snd (withRequestToken_end name h outcome s)) =
     (if outcome = Inl ThrownNullish then core s else core (releaseTokenSource s))"
proof -
  have "core (releaseTokenSource (emit es s)) = core (releaseTokenSource s)" for es
    by (rule core_releaseTokenSource_cong) simp
  then show ?thesis
    by (simp add: withRequestToken_end_def withRequestToken_finish_def Let_def
        split: sum.splits thrown.splits option.splits prod.splits)
qed

lemma core_tryFormatOnType_end:
  "core (snd (tryFormatOnType_end env h ch doc insertLeave s)) =
   core (snd (withRequestToken_end ''onTypeFormat '' h
               (snd (onTypeOperation env ch doc insertLeave)) s))"
  by (simp add: tryFormatOnType_end_def split: prod.splits sum.splits)

lemma core_documentFormat_end:
  "core (snd (documentFormat_end env h doc options s)) =
   core (snd (withRequestToken_end ''format'' h
               (provideDocumentFormattingEdits env (textDocument doc) options) s))"
  by (simp add: documentFormat_end_def split: prod.splits sum.splits option.splits)

lemma core_documentRangeFormat_end:
  "core (snd (documentRangeFormat_end env h doc rng options s)) =
   core (snd (withRequestToken_end ''format'' h
               (provideDocumentRangeFormattingEdits env (textDocument doc) rng options) s))"
  by (simp add: documentRangeFormat_end_def split: prod.splits sum.splits option.splits)

lemma tryFormatOnType_begin_cases:
  "tryFormatOnType_begin env ch bufnr s = (None, s) \<or>
   (\<exists>doc. tryFormatOnType_begin env ch bufnr s =
      (Some (fst (withRequestToken_begin ''onTypeFormat '' s), doc),
       snd (withRequestToken_begin ''onTypeFormat '' s)))"
  by (simp add: tryFormatOnType_begin_def Let_def split: option.splits prod.splits)

lemma documentFormat_begin_cases:
  "(\<exists>r. documentFormat_begin env s = (Done r, s)) \<or>
   (\<exists>doc options. documentFormat_begin env s =
      (Await (fst (withRequestToken_begin ''format'' s), doc, options),
       snd (withRequestToken_begin ''format'' s)))"
  by (simp add: documentFormat_begin_def Let_def split: option.splits prod.splits sum.splits)

lemma documentRangeFormat_begin_cases:
  "(\<exists>r. documentRangeFormat_begin env mode s = (Done r, s)) \<or>
   (\<exists>doc rng options. documentRangeFormat_begin env mode s =
      (Await (fst (withRequestToken_begin ''format'' s), doc, rng, options),
       snd (withRequestToken_begin ''format'' s)))"
  by (simp add: documentRangeFormat_begin_def Let_def
      split: option.splits prod.splits sum.splits)

lemma core_event_handlers [simp]:
  "core (onInsertCharPre now s) = core s"
  "core (snd (onTextChangedI env now bufnr pre s)) = core s"
  "core (onInsertLeave bufnr s) = core s"
  "core (snd (onCursorMoved bufnr s)) = core s"
  "core (loadPreferences affects config s) = core s"
  by (simp_all add: onInsertCharPre_def onTextChangedI_def onInsertLeave_def onCursorMoved_def
      loadPreferences_def core_def Let_def split: option.splits)

section \<open>Every transition is made of seven moves\<close>

text \<open>
  A property of the request slot, the store, the subscriptions and the timers that survives
  the start of a request, the release of the slot, the cancel handler, the start of a save
  request, a timer, the clearing of a timer and \<open>dispose\<close> survives every event.
\<close>

lemma step_preserves:
  assumes cong: "\<And>t t'. core t' = core t \<Longrightarrow> P t \<Longrightarrow> P t'"
    and start: "\<And>name t. P t \<Longrightarrow> P (snd (withRequestToken_begin name t))"
    and release: "\<And>t. P t \<Longrightarrow> P (releaseTokenSource t)"
    and cancel: "\<And>t. P t \<Longrightarrow> P (onCancelEvents t)"
    and save: "\<And>t. P t \<Longrightarrow>
        P (t\<lparr>sources := sources t @
               [\<lparr>isCancellationRequested = False, disposeCount = 0, listener = None\<rparr>],
             timers := timers t @ [(length (sources t), 1000)]\<rparr>)"
    and timer: "\<And>h t. P t \<Longrightarrow> P (timerFires h t)"
    and clear: "\<And>h t. P t \<Longrightarrow> P (t\<lparr>timers := filter (\<lambda>x. fst x \<noteq> h) (timers t)\<rparr>)"
    and disp: "\<And>t. P t \<Longrightarrow> P (dispose t)"
    and P: "P s"
  shows "P (step env ev s)"
proof -
  have wend: "P (snd (withRequestToken_end name h outcome t))" if "P t"
    for name h t and outcome :: "thrown + 'x option"
  proof (cases "outcome = Inl ThrownNullish")
    case True
    then show ?thesis
      using cong [OF _ that] by (simp add: core_withRequestToken_end)
  next
    case False
    then show ?thesis
      using cong [OF _ release [OF that]] by (simp add: core_withRequestToken_end)
  qed
  have be: "P (snd (bracketEnter env b t))" if "P t" for b t
    using cong [OF core_bracketEnter that] .
  have tend: "P (snd (tryFormatOnType_end env h ch doc il t))" if "P t" for h ch doc il t
    using cong [OF core_tryFormatOnType_end wend [OF that]] .
  have dend: "P (snd (documentFormat_end env h doc options t))" if "P t" for h doc options t
    using cong [OF core_documentFormat_end wend [OF that]] .
  have rend: "P (snd (documentRangeFormat_end env h doc rng options t))" if "P t"
    for h doc rng options t
    using cong [OF core_documentRangeFormat_end wend [OF that]] .
  have send: "P (snd (willSaveWaitUntil_end env h d options t))" if "P t" for h d options t
    using that clear [OF that, of h]
    by (simp add: willSaveWaitUntil_end_def split: sum.splits)
  have sot: "P (startOnType env ch b il br t)" if "P t" for ch b il br t
    using tryFormatOnType_begin_cases [of env ch b t]
  proof
    assume "tryFormatOnType_begin env ch b t = (None, t)"
    then show ?thesis
      using that be [OF that] by (simp add: startOnType_def)
  next
    assume "\<exists>doc. tryFormatOnType_begin env ch b t =
      (Some (fst (withRequestToken_begin ''onTypeFormat '' t), doc),
       snd (withRequestToken_begin ''onTypeFormat '' t))"
    then show ?thesis
      using cong [OF core_suspended_update start [OF that]]
      by (auto simp add: startOnType_def)
  qed
  have st: "P (settle env p t)" if "P t" for p t
  proof (cases p)
    case (PendingOnType h doc ch il b br)
    then show ?thesis
      using tend [OF that, of h ch doc il] be [OF tend [OF that], of b h ch doc il]
      by (simp split: prod.splits sum.splits) (metis snd_conv)
  next
    case (PendingFormat h doc options)
    then show ?thesis using dend [OF that] by simp
  next
    case (PendingRangeFormat h doc rng options)
    then show ?thesis using rend [OF that] by simp
  next
    case (PendingSave h d options)
    then show ?thesis using send [OF that] by simp
  qed
  have ws: "P (onWillSaveTextDocument env d t)" if "P t" for d t
  proof -
    have "P (t\<lparr>sources := sources t @
               [\<lparr>isCancellationRequested = False, disposeCount = 0, listener = None\<rparr>],
             timers := timers t @ [(length (sources t), 1000)],
             suspended := x\<rparr>)" for x
      using cong [OF core_suspended_update save [OF that]] by simp
    moreover have "P (emit es t)" for es
      using cong [OF core_emit that] .
    ultimately show ?thesis
      using that
      by (simp add: onWillSaveTextDocument_def willSaveWaitUntil_begin_def Let_def
          split: sum.splits)
  qed
  have df: "P (snd (documentFormat_begin env t))" if "P t" for t
    using documentFormat_begin_cases [of env t] that start [OF that] by auto
  have drf: "P (snd (documentRangeFormat_begin env mode t))" if "P t" for mode t
    using documentRangeFormat_begin_cases [of env mode t] that start [OF that] by auto
  have c: "P (whenSubscribed OnCancelEvents onCancelEvents t)" if "P t" for t
    using that cancel [OF that] by (simp add: whenSubscribed_def)
  show ?thesis
  proof (cases ev)
    case (CursorMoved b)
    let ?t = "whenSubscribed OnCancelEvents onCancelEvents s"
    have "P (snd (onCursorMoved b ?t))"
      using cong [OF core_event_handlers(4) c [OF P]] .
    then have "P (case onCursorMoved b ?t of
                (True, s2) \<Rightarrow> startOnType env newline b True False s2
              | (False, s2) \<Rightarrow> s2)"
      using sot by (auto split: prod.splits bool.splits)
    then show ?thesis
      using CursorMoved c [OF P] by (simp add: whenSubscribed_def)
  next
    case (TextChangedI now b pre)
    let ?t = "whenSubscribed OnCancelEvents onCancelEvents s"
    have "P (snd (onTextChangedI env now b pre ?t))"
      using cong [OF core_event_handlers(2) c [OF P]] .
    then have "P (case onTextChangedI env now b pre ?t of
                (Some (ch, b'), s2) \<Rightarrow> startOnType env ch b' False False s2
              | (None, s2) \<Rightarrow> s2)"
      using sot by (auto split: prod.splits option.splits)
    then show ?thesis
      using TextChangedI c [OF P] by (simp add: whenSubscribed_def)
  next
    case (CallDocumentFormat)
    then show ?thesis
      using df [OF P] cong [OF core_suspended_update, of "snd (documentFormat_begin env s)"]
      by (auto split: prod.splits progress.splits)
  next
    case (CallDocumentRangeFormat mode)
    then show ?thesis
      using drf [OF P, of mode]
        cong [OF core_suspended_update, of "snd (documentRangeFormat_begin env mode s)"]
      by (auto split: prod.splits progress.splits)
  next
    case (Settles h)
    have "P (s\<lparr>suspended := x\<rparr>)" for x
      using cong [OF core_suspended_update P] .
    then show ?thesis
      using Settles P st by (simp split: option.splits)
  next
    case (InsertCharPre now)
    then show ?thesis
      using P cong [OF core_event_handlers(1) P] by (simp add: whenSubscribed_def)
  next
    case (InsertLeave b)
    then show ?thesis
      using P cong [OF core_event_handlers(3) P] by (simp add: whenSubscribed_def)
  next
    case (DidChangeConfiguration affects config)
    then show ?thesis
      using P cong [OF core_event_handlers(5) P] by (simp add: whenSubscribed_def)
  next
    case (Enter b)
    then show ?thesis
      using P sot [OF P] by (simp add: whenSubscribed_def)
  next
    case (WillSaveTextDocument d)
    then show ?thesis
      using P ws [OF P] by (simp add: whenSubscribed_def)
  qed (use P c [OF P] timer [OF P] disp [OF P] in simp_all)
qed

lemma run_preserves:
  assumes cong: "\<And>t t'. core t' = core t \<Longrightarrow> P t \<Longrightarrow> P t'"
    and start: "\<And>name t. P t \<Longrightarrow> P (snd (withRequestToken_begin name t))"
    and release: "\<And>t. P t \<Longrightarrow> P (releaseTokenSource t)"
    and cancel: "\<And>t. P t \<Longrightarrow> P (onCancelEvents t)"
    and save: "\<And>t. P t \<Longrightarrow>
        P (t\<lparr>sources := sources t @
               [\<lparr>isCancellationRequested = False, disposeCount = 0, listener = None\<rparr>],
             timers := timers t @ [(length (sources t), 1000)]\<rparr>)"
    and timer: "\<And>h t. P t \<Longrightarrow> P (timerFires h t)"
    and clear: "\<And>h t. P t \<Longrightarrow> P (t\<lparr>timers := filter (\<lambda>x. fst x \<noteq> h) (timers t)\<rparr>)"
    and disp: "\<And>t. P t \<Longrightarrow> P (dispose t)"
  shows "P s \<Longrightarrow> P (run evs s)"
proof (induction evs arbitrary: s)
  case Nil
  then show ?case by simp
next
  case (Cons x evs)
  obtain env ev where x: "x = (env, ev)"
    by (cases x)
  have "P (step env ev s)"
    using step_preserves [of P, OF cong start release cancel save timer clear disp Cons.prems] .
  then show ?case
    using Cons.IH x by simp
qed

section \<open>The slot holds an undisposed source, and no source is disposed twice\<close>

lemma withRequestToken_begin_fields:
  "fst (withRequestToken_begin name s) = length (sources s)"
  "requestTokenSource (snd (withRequestToken_begin name s)) = Some (length (sources s))"
  "sources (snd (withRequestToken_begin name s)) =
     sources (cancelPrevious s) @
     [\<lparr>isCancellationRequested = False, disposeCount = 0, listener = Some name\<rparr>]"
  "length (sources (cancelPrevious s)) = length (sources s)"
  "subscriptions (snd (withRequestToken_begin name s)) = subscriptions s"
  "disposables (snd (withRequestToken_begin name s)) = disposables s"
  "timers (snd (withRequestToken_begin name s)) = timers s"
  by (simp_all add: withRequestToken_begin_def cancelPrevious_def Let_def split: option.splits)

lemma disposeCount_cancelPrevious:
  "disposeCount (sources (cancelPrevious s) ! h) =
     (if requestTokenSource s = Some h \<and> h < length (sources s)
      then Suc (disposeCount (sources s ! h))
      else disposeCount (sources s ! h))"
  by (auto simp add: cancelPrevious_def disposeCount_dispose_source split: option.splits)

lemma isCancellationRequested_cancelPrevious:
  "isCancellationRequested (sources (cancelPrevious s) ! h) =
     (if requestTokenSource s = Some h \<and> h < length (sources s) then True
      else isCancellationRequested (sources s ! h))"
  by (auto simp add: cancelPrevious_def isCancellationRequested_cancel_source
      split: option.splits)

lemma releaseTokenSource_fields:
  "requestTokenSource (releaseTokenSource s) = None"
  "length (sources (releaseTokenSource s)) = length (sources s)"
  "subscriptions (releaseTokenSource s) = subscriptions s"
  "disposables (releaseTokenSource s) = disposables s"
  "timers (releaseTokenSource s) = timers s"
  by (simp_all add: releaseTokenSource_def split: option.splits)

lemma disposeCount_releaseTokenSource:
  "disposeCount (sources (releaseTokenSource s) ! h) =
     (if requestTokenSource s = Some h \<and> h < length (sources s)
      then Suc (disposeCount (sources s ! h))
      else disposeCount (sources s ! h))"
  by (auto simp add: releaseTokenSource_def disposeCount_dispose_source split: option.splits)

lemma isCancellationRequested_releaseTokenSource [simp]:
  "isCancellationRequested (sources (releaseTokenSource s) ! h) =
   isCancellationRequested (sources s ! h)"
  by (simp add: releaseTokenSource_def split: option.splits)

lemma onCancelEvents_fields:
  "requestTokenSource (onCancelEvents s) = None"
  "length (sources (onCancelEvents s)) = length (sources s)"
  "disposeCount (sources (onCancelEvents s) ! h) = disposeCount (sources s ! h)"
  "subscriptions (onCancelEvents s) = subscriptions s"
  "disposables (onCancelEvents s) = disposables s"
  "timers (onCancelEvents s) = timers s"
  by (simp_all add: onCancelEvents_def split: option.splits)

lemma isCancellationRequested_onCancelEvents:
  "isCancellationRequested (sources (onCancelEvents s) ! h) =
     (if requestTokenSource s = Some h \<and> h < length (sources s) then True
      else isCancellationRequested (sources s ! h))"
  by (auto simp add: onCancelEvents_def isCancellationRequested_cancel_source
      split: option.splits)

lemma timerFires_fields:
  "requestTokenSource (timerFires h s) = requestTokenSource s"
  "length (sources (timerFires h s)) = length (sources s)"
  "disposeCount (sources (timerFires h s) ! k) = disposeCount (sources s ! k)"
  "subscriptions (timerFires h s) = subscriptions s"
  "disposables (timerFires h s) = disposables s"
  by (simp_all add: timerFires_def)

lemma dispose_fields:
  "requestTokenSource (dispose s) = requestTokenSource s"
  "sources (dispose s) = sources s"
  "timers (dispose s) = timers s"
  "suspended (dispose s) = suspended s"
  by (simp_all add: dispose_def disposeAll_def)

lemma slotFresh_iff:
  "slotFresh s =
     (\<forall>h. requestTokenSource s = Some h \<longrightarrow>
          h < length (sources s) \<and> disposeCount (sources s ! h) = 0)"
  by (simp add: slotFresh_def split: option.splits)

lemma slot_invariant_step:
  assumes "slotFresh s \<and> disposedAtMostOnce s"
  shows "slotFresh (step env ev s) \<and> disposedAtMostOnce (step env ev s)"
proof (rule step_preserves [where P = "\<lambda>t. slotFresh t \<and> disposedAtMostOnce t", OF _ _ _ _ _ _ _ _ assms])
  fix t t' :: State
  assume "core t' = core t" "slotFresh t \<and> disposedAtMostOnce t"
  then show "slotFresh t' \<and> disposedAtMostOnce t'"
    by (auto simp add: core_def slotFresh_iff disposedAtMostOnce_def split: option.splits)
next
  fix name and t :: State
  assume "slotFresh t \<and> disposedAtMostOnce t"
  then show "slotFresh (snd (withRequestToken_begin name t)) \<and>
             disposedAtMostOnce (snd (withRequestToken_begin name t))"
    by (auto simp add: slotFresh_iff disposedAtMostOnce_def list_all_length
        withRequestToken_begin_fields disposeCount_cancelPrevious nth_append
        split: option.splits)
next
  fix t :: State
  assume "slotFresh t \<and> disposedAtMostOnce t"
  then show "slotFresh (releaseTokenSource t) \<and> disposedAtMostOnce (releaseTokenSource t)"
    by (auto simp add: slotFresh_iff disposedAtMostOnce_def list_all_length
        releaseTokenSource_fields disposeCount_releaseTokenSource split: option.splits)
next
  fix t :: State
  assume "slotFresh t \<and> disposedAtMostOnce t"
  then show "slotFresh (onCancelEvents t) \<and> disposedAtMostOnce (onCancelEvents t)"
    by (auto simp add: slotFresh_iff disposedAtMostOnce_def list_all_length
        onCancelEvents_fields split: option.splits)
next
  fix t :: State
  assume "slotFresh t \<and> disposedAtMostOnce t"
  then show "slotFresh (t\<lparr>sources := sources t @
               [\<lparr>isCancellationRequested = False, disposeCount = 0, listener = None\<rparr>],
             timers := timers t @ [(length (sources t), 1000)]\<rparr>) \<and>
        disposedAtMostOnce (t\<lparr>sources := sources t @
               [\<lparr>isCancellationRequested = False, disposeCount = 0, listener = None\<rparr>],
             timers := timers t @ [(length (sources t), 1000)]\<rparr>)"
    by (auto simp add: slotFresh_iff disposedAtMostOnce_def nth_append split: option.splits)
next
  fix h and t :: State
  assume "slotFresh t \<and> disposedAtMostOnce t"
  then show "slotFresh (timerFires h t) \<and> disposedAtMostOnce (timerFires h t)"
    by (auto simp add: slotFresh_iff disposedAtMostOnce_def list_all_length timerFires_fields
        split: option.splits)
next
  fix h and t :: State
  assume "slotFresh t \<and> disposedAtMostOnce t"
  then show "slotFresh (t\<lparr>timers := filter (\<lambda>x. fst x \<noteq> h) (timers t)\<rparr>) \<and>
             disposedAtMostOnce (t\<lparr>timers := filter (\<lambda>x. fst x \<noteq> h) (timers t)\<rparr>)"
    by (simp add: slotFresh_iff disposedAtMostOnce_def)
next
  fix t :: State
  assume "slotFresh t \<and> disposedAtMostOnce t"
  then show "slotFresh (dispose t) \<and> disposedAtMostOnce (dispose t)"
    by (simp add: slotFresh_iff disposedAtMostOnce_def dispose_fields)
qed

lemma slot_invariant_run:
  "slotFresh s \<and> disposedAtMostOnce s \<Longrightarrow>
   slotFresh (run evs s) \<and> disposedAtMostOnce (run evs s)"
proof (induction evs arbitrary: s)
  case Nil
  then show ?case by simp
next
  case (Cons x evs)
  then show ?case
    using slot_invariant_step by (cases x) simp
qed

lemma slot_invariant_constructor:
  "slotFresh (constructor config) \<and> disposedAtMostOnce (constructor config)"
  by (simp add: slotFresh_iff disposedAtMostOnce_def constructor_def)

lemma slot_invariant_reachable:
  "slotFresh (run evs (constructor config)) \<and> disposedAtMostOnce (run evs (constructor config))"
  using slot_invariant_run [OF slot_invariant_constructor] .

section \<open>A source outside the slot is never disposed\<close>

lemma unslotted_run:
  assumes "h < length (sources s) \<and> requestTokenSource s \<noteq> Some h \<and>
           disposeCount (sources s ! h) = n"
  shows "h < length (sources (run evs s)) \<and> requestTokenSource (run evs s) \<noteq> Some h \<and>
         disposeCount (sources (run evs s) ! h) = n"
proof (rule run_preserves [where P = "\<lambda>t. h < length (sources t) \<and>
    requestTokenSource t \<noteq> Some h \<and> disposeCount (sources t ! h) = n",
    OF _ _ _ _ _ _ _ _ assms])
  fix t t' :: State
  assume "core t' = core t"
    "h < length (sources t) \<and> requestTokenSource t \<noteq> Some h \<and> disposeCount (sources t ! h) = n"
  then show "h < length (sources t') \<and> requestTokenSource t' \<noteq> Some h \<and>
             disposeCount (sources t' ! h) = n"
    by (simp add: core_def)
next
  fix name and t :: State
  assume "h < length (sources t) \<and> requestTokenSource t \<noteq> Some h \<and>
          disposeCount (sources t ! h) = n"
  then show "h < length (sources (snd (withRequestToken_begin name t))) \<and>
             requestTokenSource (snd (withRequestToken_begin name t)) \<noteq> Some h \<and>
             disposeCount (sources (snd (withRequestToken_begin name t)) ! h) = n"
    by (simp add: withRequestToken_begin_fields disposeCount_cancelPrevious nth_append)
next
  fix t :: State
  assume "h < length (sources t) \<and> requestTokenSource t \<noteq> Some h \<and>
          disposeCount (sources t ! h) = n"
  then show "h < length (sources (releaseTokenSource t)) \<and>
             requestTokenSource (releaseTokenSource t) \<noteq> Some h \<and>
             disposeCount (sources (releaseTokenSource t) ! h) = n"
    by (simp add: releaseTokenSource_fields disposeCount_releaseTokenSource)
next
  fix t :: State
  assume "h < length (sources t) \<and> requestTokenSource t \<noteq> Some h \<and>
          disposeCount (sources t ! h) = n"
  then show "h < length (sources (onCancelEvents t)) \<and>
             requestTokenSource (onCancelEvents t) \<noteq> Some h \<and>
             disposeCount (sources (onCancelEvents t) ! h) = n"
    by (simp add: onCancelEvents_fields)
next
  fix t :: State
  assume "h < length (sources t) \<and> requestTokenSource t \<noteq> Some h \<and>
          disposeCount (sources t ! h) = n"
  then show "h < length (sources (t\<lparr>sources := sources t @
               [\<lparr>isCancellationRequested = False, disposeCount = 0, listener = None\<rparr>],
             timers := timers t @ [(length (sources t), 1000)]\<rparr>)) \<and>
        requestTokenSource (t\<lparr>sources := sources t @
               [\<lparr>isCancellationRequested = False, disposeCount = 0, listener = None\<rparr>],
             timers := timers t @ [(length (sources t), 1000)]\<rparr>) \<noteq> Some h \<and>
        disposeCount (sources (t\<lparr>sources := sources t @
               [\<lparr>isCancellationRequested = False, disposeCount = 0, listener = None\<rparr>],
             timers := timers t @ [(length (sources t), 1000)]\<rparr>) ! h) = n"
    by (simp add: nth_append)
next
  fix k and t :: State
  assume "h < length (sources t) \<and> requestTokenSource t \<noteq> Some h \<and>
          disposeCount (sources t ! h) = n"
  then show "h < length (sources (timerFires k t)) \<and>
             requestTokenSource (timerFires k t) \<noteq> Some h \<and>
             disposeCount (sources (timerFires k t) ! h) = n"
    by (simp add: timerFires_fields)
next
  fix k and t :: State
  assume "h < length (sources t) \<and> requestTokenSource t \<noteq> Some h \<and>
          disposeCount (sources t ! h) = n"
  then show "h < length (sources (t\<lparr>timers := filter (\<lambda>x. fst x \<noteq> k) (timers t)\<rparr>)) \<and>
             requestTokenSource (t\<lparr>timers := filter (\<lambda>x. fst x \<noteq> k) (timers t)\<rparr>) \<noteq> Some h \<and>
             disposeCount (sources (t\<lparr>timers := filter (\<lambda>x. fst x \<noteq> k) (timers t)\<rparr>) ! h) = n"
    by simp
next
  fix t :: State
  assume "h < length (sources t) \<and> requestTokenSource t \<noteq> Some h \<and>
          disposeCount (sources t ! h) = n"
  then show "h < length (sources (dispose t)) \<and> requestTokenSource (dispose t) \<noteq> Some h \<and>
             disposeCount (sources (dispose t) ! h) = n"
    by (simp add: dispose_fields)
qed

section \<open>Disposal of the cancellation handles\<close>

text \<open>
  C3, refuted as stated. A document format is started (handle 0 is created), the cursor
  moves before the provider answers, the provider answers, and the handler is disposed:
  the request has been cancelled and is over, the slot is empty, and handle 0 has not been
  disposed at all.
\<close>

theorem handle_cancelled_by_event_not_disposed:
  "length (sources traceCancelledByCursorMove) = 1 \<and>
   isCancellationRequested (sources traceCancelledByCursorMove ! 0) \<and>
   disposeCount (sources traceCancelledByCursorMove ! 0) = 0 \<and>
   suspended traceCancelledByCursorMove = [] \<and>
   requestTokenSource traceCancelledByCursorMove = None"
  by (simp add: traceCancelledByCursorMove_def constructor_def examplePreferences_def
      exampleEnv_def exampleDocument_def exampleTextDocument_def
      documentFormat_begin_def documentFormat_end_def withRequestToken_begin_def
      withRequestToken_end_def withRequestToken_finish_def cancelPrevious_def releaseTokenSource_def
      whenSubscribed_def subscribed_def onCancelEvents_def onCursorMoved_def
      cancel_source_def onCancellationRequested_def dispose_def disposeAll_def Let_def)

text \<open>
  C3, as amended. In every state the handler can reach, every cancellation handle has been
  disposed at most once. A handle that is in the slot when the cancel handler of the editor
  events runs is never disposed, whatever happens afterwards. A handle that is in the slot
  when \<open>withRequestToken\<close> starts a newer request, or when the continuation of a request
  releases the slot, is disposed exactly once, then and for ever.
\<close>

theorem handles_disposed_at_most_once:
  "(h < length (sources (run evs (constructor config))) \<longrightarrow>
      disposeCount (sources (run evs (constructor config)) ! h) \<le> 1) \<and>
   (requestTokenSource (run evs (constructor config)) = Some h \<longrightarrow>
      disposeCount (sources (run evs' (onCancelEvents (run evs (constructor config)))) ! h) = 0) \<and>
   (requestTokenSource (run evs (constructor config)) = Some h \<longrightarrow>
      disposeCount (sources (run evs'
        (snd (withRequestToken_begin name (run evs (constructor config))))) ! h) = 1) \<and>
   (requestTokenSource (run evs (constructor config)) = Some h \<longrightarrow>
      disposeCount (sources (run evs'
        (releaseTokenSource (run evs (constructor config)))) ! h) = 1)"
proof -
  define s where "s = run evs (constructor config)"
  have inv: "slotFresh s" "disposedAtMostOnce s"
    using slot_invariant_reachable [of evs config] by (simp_all add: s_def)
  have 1: "h < length (sources s) \<longrightarrow> disposeCount (sources s ! h) \<le> 1"
    using inv(2) by (simp add: disposedAtMostOnce_def list_all_length)
  have 2: "requestTokenSource s = Some h \<longrightarrow>
        disposeCount (sources (run evs' (onCancelEvents s)) ! h) = 0"
  proof
    assume slot: "requestTokenSource s = Some h"
    then have "h < length (sources s)" "disposeCount (sources s ! h) = 0"
      using inv(1) by (simp_all add: slotFresh_iff)
    then have "h < length (sources (onCancelEvents s)) \<and>
        requestTokenSource (onCancelEvents s) \<noteq> Some h \<and>
        disposeCount (sources (onCancelEvents s) ! h) = 0"
      by (simp add: onCancelEvents_fields)
    from unslotted_run [OF this]
    show "disposeCount (sources (run evs' (onCancelEvents s)) ! h) = 0"
      by simp
  qed
  have 3: "requestTokenSource s = Some h \<longrightarrow>
        disposeCount (sources (run evs' (snd (withRequestToken_begin name s))) ! h) = 1"
  proof
    assume slot: "requestTokenSource s = Some h"
    then have "h < length (sources s)" "disposeCount (sources s ! h) = 0"
      using inv(1) by (simp_all add: slotFresh_iff)
    then have "h < length (sources (snd (withRequestToken_begin name s))) \<and>
        requestTokenSource (snd (withRequestToken_begin name s)) \<noteq> Some h \<and>
        disposeCount (sources (snd (withRequestToken_begin name s)) ! h) = 1"
      using slot
      by (simp add: withRequestToken_begin_fields disposeCount_cancelPrevious nth_append)
    from unslotted_run [OF this]
    show "disposeCount (sources (run evs' (snd (withRequestToken_begin name s))) ! h) = 1"
      by simp
  qed
  have 4: "requestTokenSource s = Some h \<longrightarrow>
        disposeCount (sources (run evs' (releaseTokenSource s)) ! h) = 1"
  proof
    assume slot: "requestTokenSource s = Some h"
    then have "h < length (sources s)" "disposeCount (sources s ! h) = 0"
      using inv(1) by (simp_all add: slotFresh_iff)
    then have "h < length (sources (releaseTokenSource s)) \<and>
        requestTokenSource (releaseTokenSource s) \<noteq> Some h \<and>
        disposeCount (sources (releaseTokenSource s) ! h) = 1"
      using slot
      by (simp add: releaseTokenSource_fields disposeCount_releaseTokenSource)
    from unslotted_run [OF this]
    show "disposeCount (sources (run evs' (releaseTokenSource s)) ! h) = 1"
      by simp
  qed
  show ?thesis
    using 1 2 3 4 unfolding s_def by blast
qed

lemma traceFormatStarted_slot:
  "requestTokenSource traceFormatStarted = Some 0"
  "length (sources traceFormatStarted) = 1"
  "suspended traceFormatStarted =
     [PendingFormat 0 exampleDocument \<lparr>tabSize = 2, insertSpaces = True\<rparr>]"
  "\<not> isCancellationRequested (sources traceFormatStarted ! 0)"
  "disposeCount (sources traceFormatStarted ! 0) = 0"
  by (simp_all add: traceFormatStarted_def constructor_def examplePreferences_def
      exampleEnv_def exampleDocument_def exampleTextDocument_def
      documentFormat_begin_def withRequestToken_begin_def cancelPrevious_def Let_def)

theorem handles_disposed_at_most_once_witness:
  "0 < length (sources traceFormatStarted) \<and>
   requestTokenSource traceFormatStarted = Some 0 \<and>
   disposeCount (sources traceFormatStarted ! 0) \<le> 1 \<and>
   disposeCount (sources (run [(exampleEnv, Settles 0)]
     (onCancelEvents traceFormatStarted)) ! 0) = 0 \<and>
   disposeCount (sources (run [(exampleEnv, Settles 0)]
     (snd (withRequestToken_begin ''format'' traceFormatStarted))) ! 0) = 1"
  using handles_disposed_at_most_once [of 0 "[(exampleEnv, CallDocumentFormat)]"
      examplePreferences "[(exampleEnv, Settles 0)]" "''format''",
      folded traceFormatStarted_def]
    traceFormatStarted_slot(1,2)
  by simp

section \<open>One request slot, and the requests outside it\<close>

text \<open>
  C1, refuted as stated. A save starts a save-time format (token source 0), and while its
  provider has not answered \<open>documentFormat\<close> is called (token source 1): both requests
  are suspended at their provider call with a token that is not cancelled, and the slot
  holds the second one only.
\<close>

theorem save_and_format_both_in_flight:
  "inFlight traceSaveThenFormat = [0, 1] \<and>
   requestTokenSource traceSaveThenFormat = Some 1 \<and>
   \<not> isCancellationRequested (sources traceSaveThenFormat ! 0) \<and>
   \<not> isCancellationRequested (sources traceSaveThenFormat ! 1)"
  by (simp add: traceSaveThenFormat_def inFlight_def constructor_def examplePreferences_def
      exampleEnv_def exampleDocument_def exampleTextDocument_def
      whenSubscribed_def subscribed_def onWillSaveTextDocument_def
      willSaveWaitUntil_begin_def documentFormat_begin_def withRequestToken_begin_def
      cancelPrevious_def Let_def)

text \<open>
  The release of lines 172-175 takes whatever is in the slot. The continuation of a
  superseded request finds its successor there: in this trace the first request's
  continuation disposes the second request's source and empties the slot, so the third request
  does not cancel the second, and both are in flight.
\<close>

lemma superseded_continuation_releases_successor:
  "inFlight traceThreeFormats = [1, 2] \<and>
   disposeCount (sources traceThreeFormats ! 1) = 1 \<and>
   \<not> isCancellationRequested (sources traceThreeFormats ! 1) \<and>
   requestTokenSource traceThreeFormats = Some 2"
  by (simp add: traceThreeFormats_def inFlight_def constructor_def examplePreferences_def
      exampleEnv_def exampleDocument_def exampleTextDocument_def
      documentFormat_begin_def documentFormat_end_def withRequestToken_begin_def
      withRequestToken_end_def withRequestToken_finish_def cancelPrevious_def
      releaseTokenSource_def cancel_source_def dispose_source_def
      onCancellationRequested_def emit_def Let_def)

lemma onWillSaveTextDocument_fields:
  "requestTokenSource (onWillSaveTextDocument env d s) = requestTokenSource s"
  "h < length (sources s) \<Longrightarrow> sources (onWillSaveTextDocument env d s) ! h = sources s ! h"
  by (simp_all add: onWillSaveTextDocument_def willSaveWaitUntil_begin_def Let_def emit_def
      nth_append split: sum.splits)

text \<open>
  C1, as amended. In every state the handler can reach, when \<open>withRequestToken\<close> starts a
  new request while a source is in the slot, that source is cancelled and disposed (once)
  before the new one is created, it is in flight no more, and the slot then holds the new
  source, which is neither cancelled nor disposed. The save-time format does not go through
  the slot: it leaves the slot and every existing source as they are.
\<close>

theorem new_request_supersedes_slot:
  "requestTokenSource (run evs (constructor config)) = Some old \<longrightarrow>
     (isCancellationRequested
        (sources (snd (withRequestToken_begin name (run evs (constructor config)))) ! old) \<and>
      disposeCount
        (sources (snd (withRequestToken_begin name (run evs (constructor config)))) ! old) = 1 \<and>
      old \<notin> set (inFlight (snd (withRequestToken_begin name (run evs (constructor config))))) \<and>
      requestTokenSource (snd (withRequestToken_begin name (run evs (constructor config)))) =
        Some (fst (withRequestToken_begin name (run evs (constructor config)))) \<and>
      fst (withRequestToken_begin name (run evs (constructor config))) \<noteq> old \<and>
      sources (snd (withRequestToken_begin name (run evs (constructor config)))) !
        fst (withRequestToken_begin name (run evs (constructor config))) =
        \<lparr>isCancellationRequested = False, disposeCount = 0, listener = Some name\<rparr> \<and>
      requestTokenSource (onWillSaveTextDocument env document (run evs (constructor config))) =
        Some old \<and>
      sources (onWillSaveTextDocument env document (run evs (constructor config))) ! old =
        sources (run evs (constructor config)) ! old)"
proof
  define s where "s = run evs (constructor config)"
  assume "requestTokenSource (run evs (constructor config)) = Some old"
  then have slot: "requestTokenSource s = Some old"
    by (simp add: s_def)
  have "slotFresh s"
    using slot_invariant_reachable [of evs config] by (simp add: s_def)
  then have old: "old < length (sources s)" "disposeCount (sources s ! old) = 0"
    using slot by (simp_all add: slotFresh_iff)
  have 1: "isCancellationRequested (sources (snd (withRequestToken_begin name s)) ! old)"
    using slot old
    by (simp add: withRequestToken_begin_fields isCancellationRequested_cancelPrevious nth_append)
  have 2: "disposeCount (sources (snd (withRequestToken_begin name s)) ! old) = 1"
    using slot old
    by (simp add: withRequestToken_begin_fields disposeCount_cancelPrevious nth_append)
  have 3: "old \<notin> set (inFlight (snd (withRequestToken_begin name s)))"
    using 1 by (simp add: inFlight_def)
  have 4: "requestTokenSource (snd (withRequestToken_begin name s)) =
        Some (fst (withRequestToken_begin name s))"
    by (simp add: withRequestToken_begin_fields)
  have 5: "fst (withRequestToken_begin name s) \<noteq> old"
    using old by (simp add: withRequestToken_begin_fields)
  have 6: "sources (snd (withRequestToken_begin name s)) ! fst (withRequestToken_begin name s) =
        \<lparr>isCancellationRequested = False, disposeCount = 0, listener = Some name\<rparr>"
    by (simp add: withRequestToken_begin_fields nth_append)
  have 7: "requestTokenSource (onWillSaveTextDocument env document s) = Some old"
    using slot by (simp add: onWillSaveTextDocument_fields)
  have 8: "sources (onWillSaveTextDocument env document s) ! old = sources s ! old"
    using old by (simp add: onWillSaveTextDocument_fields)
  show "isCancellationRequested
        (sources (snd (withRequestToken_begin name (run evs (constructor config)))) ! old) \<and>
      disposeCount
        (sources (snd (withRequestToken_begin name (run evs (constructor config)))) ! old) = 1 \<and>
      old \<notin> set (inFlight (snd (withRequestToken_begin name (run evs (constructor config))))) \<and>
      requestTokenSource (snd (withRequestToken_begin name (run evs (constructor config)))) =
        Some (fst (withRequestToken_begin name (run evs (constructor config)))) \<and>
      fst (withRequestToken_begin name (run evs (constructor config))) \<noteq> old \<and>
      sources (snd (withRequestToken_begin name (run evs (constructor config)))) !
        fst (withRequestToken_begin name (run evs (constructor config))) =
        \<lparr>isCancellationRequested = False, disposeCount = 0, listener = Some name\<rparr> \<and>
      requestTokenSource (onWillSaveTextDocument env document (run evs (constructor config))) =
        Some old \<and>
      sources (onWillSaveTextDocument env document (run evs (constructor config))) ! old =
        sources (run evs (constructor config)) ! old"
    using 1 2 3 4 5 6 7 8 unfolding s_def by blast
qed

theorem new_request_supersedes_slot_witness:
  "requestTokenSource traceFormatStarted = Some 0 \<and>
   isCancellationRequested
     (sources (snd (withRequestToken_begin ''format'' traceFormatStarted)) ! 0) \<and>
   disposeCount (sources (snd (withRequestToken_begin ''format'' traceFormatStarted)) ! 0) = 1 \<and>
   requestTokenSource (snd (withRequestToken_begin ''format'' traceFormatStarted)) = Some 1 \<and>
   requestTokenSource (onWillSaveTextDocument exampleEnv exampleTextDocument traceFormatStarted) =
     Some 0"
  using new_request_supersedes_slot [of "[(exampleEnv, CallDocumentFormat)]"
      examplePreferences 0 "''format''" exampleEnv exampleTextDocument,
      folded traceFormatStarted_def]
    traceFormatStarted_slot(1,2)
  by (simp add: withRequestToken_begin_fields)

section \<open>Cancellation is final, and a cancelled request does nothing\<close>

lemma cancelled_run:
  assumes "h < length (sources s) \<and> isCancellationRequested (sources s ! h)"
  shows "h < length (sources (run evs s)) \<and> isCancellationRequested (sources (run evs s) ! h)"
proof (rule run_preserves [where P = "\<lambda>t. h < length (sources t) \<and>
    isCancellationRequested (sources t ! h)", OF _ _ _ _ _ _ _ _ assms])
  fix t t' :: State
  assume "core t' = core t" "h < length (sources t) \<and> isCancellationRequested (sources t ! h)"
  then show "h < length (sources t') \<and> isCancellationRequested (sources t' ! h)"
    by (simp add: core_def)
next
  fix name and t :: State
  assume "h < length (sources t) \<and> isCancellationRequested (sources t ! h)"
  then show "h < length (sources (snd (withRequestToken_begin name t))) \<and>
             isCancellationRequested (sources (snd (withRequestToken_begin name t)) ! h)"
    by (simp add: withRequestToken_begin_fields isCancellationRequested_cancelPrevious nth_append)
next
  fix t :: State
  assume "h < length (sources t) \<and> isCancellationRequested (sources t ! h)"
  then show "h < length (sources (releaseTokenSource t)) \<and>
             isCancellationRequested (sources (releaseTokenSource t) ! h)"
    by (simp add: releaseTokenSource_fields)
next
  fix t :: State
  assume "h < length (sources t) \<and> isCancellationRequested (sources t ! h)"
  then show "h < length (sources (onCancelEvents t)) \<and>
             isCancellationRequested (sources (onCancelEvents t) ! h)"
    by (simp add: onCancelEvents_fields isCancellationRequested_onCancelEvents)
next
  fix t :: State
  assume "h < length (sources t) \<and> isCancellationRequested (sources t ! h)"
  then show "h < length (sources (t\<lparr>sources := sources t @
               [\<lparr>isCancellationRequested = False, disposeCount = 0, listener = None\<rparr>],
             timers := timers t @ [(length (sources t), 1000)]\<rparr>)) \<and>
        isCancellationRequested (sources (t\<lparr>sources := sources t @
               [\<lparr>isCancellationRequested = False, disposeCount = 0, listener = None\<rparr>],
             timers := timers t @ [(length (sources t), 1000)]\<rparr>) ! h)"
    by (simp add: nth_append)
next
  fix k and t :: State
  assume "h < length (sources t) \<and> isCancellationRequested (sources t ! h)"
  then show "h < length (sources (timerFires k t)) \<and>
             isCancellationRequested (sources (timerFires k t) ! h)"
    by (simp add: timerFires_def isCancellationRequested_cancel_source)
next
  fix k and t :: State
  assume "h < length (sources t) \<and> isCancellationRequested (sources t ! h)"
  then show "h < length (sources (t\<lparr>timers := filter (\<lambda>x. fst x \<noteq> k) (timers t)\<rparr>)) \<and>
     isCancellationRequested (sources (t\<lparr>timers := filter (\<lambda>x. fst x \<noteq> k) (timers t)\<rparr>) ! h)"
    by simp
next
  fix t :: State
  assume "h < length (sources t) \<and> isCancellationRequested (sources t ! h)"
  then show "h < length (sources (dispose t)) \<and>
             isCancellationRequested (sources (dispose t) ! h)"
    by (simp add: dispose_fields)
qed

lemma releaseTokenSource_effects [simp]:
  "effects (releaseTokenSource t) = effects t"
  "requestStatusItem (releaseTokenSource t) = requestStatusItem t"
  by (simp_all add: releaseTokenSource_def dispose_source_def Let_def split: option.splits)

lemma isCancellationRequested_release_emit [simp]:
  "isCancellationRequested (sources (releaseTokenSource (emit es s)) ! h) =
   isCancellationRequested (sources s ! h)"
  by (simp add: emit_def)

lemma withRequestToken_end_cancelled:
  fixes payload :: "'a option"
  assumes "isCancellationRequested (sources s ! h)"
  shows "withRequestToken_end name h (Inr payload) s = (Inr None, releaseTokenSource s)"
  using assms by (simp add: withRequestToken_end_def withRequestToken_finish_def Let_def)

lemma withRequestToken_end_cancelled_buffer:
  fixes outcome :: "thrown + 'a option"
  assumes "isCancellationRequested (sources s ! h)"
  shows "fst (withRequestToken_end name h outcome s) \<in> {Inr None, Inl typeError} \<and>
         filter isBufferEffect (effects (snd (withRequestToken_end name h outcome s))) =
         filter isBufferEffect (effects s)"
proof (cases outcome)
  case (Inl e)
  then show ?thesis
    using assms by (cases e) (simp_all add: withRequestToken_end_def withRequestToken_finish_def Let_def, simp add: emit_def)
next
  case (Inr payload)
  then show ?thesis
    using withRequestToken_end_cancelled [OF assms, of name payload] by simp
qed

lemma cancelled_callers:
  assumes c: "isCancellationRequested (sources t ! h)"
  shows "filter isBufferEffect (effects (snd (tryFormatOnType_end env h ch doc il t))) =
         filter isBufferEffect (effects t)"
    and "fst (tryFormatOnType_end env h ch doc il t) \<in> {Inr (), Inl typeError}"
    and "filter isBufferEffect (effects (snd (documentFormat_end env h doc options t))) =
         filter isBufferEffect (effects t)"
    and "fst (documentFormat_end env h doc options t) \<in> {Inr False, Inl typeError}"
    and "filter isBufferEffect (effects (snd (documentRangeFormat_end env h doc rng options t))) =
         filter isBufferEffect (effects t)"
    and "fst (documentRangeFormat_end env h doc rng options t) \<in> {Inr (- 1), Inl typeError}"
proof -
  obtain position outcome where op: "onTypeOperation env ch doc il = (position, outcome)"
    by (cases "onTypeOperation env ch doc il")
  obtain r1 s1 where w1: "withRequestToken_end ''onTypeFormat '' h outcome t = (r1, s1)"
    by (cases "withRequestToken_end ''onTypeFormat '' h outcome t")
  have "r1 \<in> {Inr None, Inl typeError} \<and>
        filter isBufferEffect (effects s1) = filter isBufferEffect (effects t)"
    using withRequestToken_end_cancelled_buffer [OF c, of "''onTypeFormat ''" outcome] w1
    by simp
  then show "filter isBufferEffect (effects (snd (tryFormatOnType_end env h ch doc il t))) =
         filter isBufferEffect (effects t)"
    and "fst (tryFormatOnType_end env h ch doc il t) \<in> {Inr (), Inl typeError}"
    by (auto simp add: tryFormatOnType_end_def op w1 applyOnTypeEdits_def)
  obtain r2 s2 where w2: "withRequestToken_end ''format'' h
      (provideDocumentFormattingEdits env (textDocument doc) options) t = (r2, s2)"
    by (cases "withRequestToken_end ''format'' h
      (provideDocumentFormattingEdits env (textDocument doc) options) t")
  have "r2 \<in> {Inr None, Inl typeError} \<and>
        filter isBufferEffect (effects s2) = filter isBufferEffect (effects t)"
    using withRequestToken_end_cancelled_buffer [OF c, of "''format''"
        "provideDocumentFormattingEdits env (textDocument doc) options"] w2
    by simp
  then show "filter isBufferEffect (effects (snd (documentFormat_end env h doc options t))) =
         filter isBufferEffect (effects t)"
    and "fst (documentFormat_end env h doc options t) \<in> {Inr False, Inl typeError}"
    by (auto simp add: documentFormat_end_def w2)
  obtain r3 s3 where w3: "withRequestToken_end ''format'' h
      (provideDocumentRangeFormattingEdits env (textDocument doc) rng options) t = (r3, s3)"
    by (cases "withRequestToken_end ''format'' h
      (provideDocumentRangeFormattingEdits env (textDocument doc) rng options) t")
  have "r3 \<in> {Inr None, Inl typeError} \<and>
        filter isBufferEffect (effects s3) = filter isBufferEffect (effects t)"
    using withRequestToken_end_cancelled_buffer [OF c, of "''format''"
        "provideDocumentRangeFormattingEdits env (textDocument doc) rng options"] w3
    by simp
  then show "filter isBufferEffect
      (effects (snd (documentRangeFormat_end env h doc rng options t))) =
         filter isBufferEffect (effects t)"
    and "fst (documentRangeFormat_end env h doc rng options t) \<in> {Inr (- 1), Inl typeError}"
    by (auto simp add: documentRangeFormat_end_def w3)
qed

text \<open>
  C2. Let the token of a request run by \<open>withRequestToken\<close> be cancelled in state \<open>s\<close>, and
  let any events follow before its provider call settles. Then, whatever payload the provider returns,
  \<open>withRequestToken\<close> returns \<open>null\<close> and adds no effect and leaves the status item as it is;
  and for every way the operation may settle (any payload, any rejection), the three
  callers \<open>tryFormatOnType\<close>, \<open>documentFormat\<close> and \<open>documentRangeFormat\<close> apply no edit and
  move no cursor: \<open>documentFormat\<close> settles with \<open>false\<close> and \<open>documentRangeFormat\<close> with
  \<open>-1\<close> (or with the \<open>TypeError\<close> of the \<open>catch\<close> block, when the rejection value is
  nullish).
\<close>

theorem cancelled_request_suppressed:
  fixes payload :: "'a option"
  assumes "h < length (sources s)"
    and "isCancellationRequested (sources s ! h)"
  shows "fst (withRequestToken_end name h (Inr payload) (run evs s)) = Inr None \<and>
     effects (snd (withRequestToken_end name h (Inr payload) (run evs s))) =
       effects (run evs s) \<and>
     requestStatusItem (snd (withRequestToken_end name h (Inr payload) (run evs s))) =
       requestStatusItem (run evs s) \<and>
     filter isBufferEffect (effects (snd (tryFormatOnType_end env h ch doc il (run evs s)))) =
       filter isBufferEffect (effects (run evs s)) \<and>
     filter isBufferEffect (effects (snd (documentFormat_end env h doc options (run evs s)))) =
       filter isBufferEffect (effects (run evs s)) \<and>
     fst (documentFormat_end env h doc options (run evs s)) \<in> {Inr False, Inl typeError} \<and>
     filter isBufferEffect
       (effects (snd (documentRangeFormat_end env h doc rng options (run evs s)))) =
       filter isBufferEffect (effects (run evs s)) \<and>
     fst (documentRangeFormat_end env h doc rng options (run evs s)) \<in>
       {Inr (- 1), Inl typeError}"
proof -
  have c: "isCancellationRequested (sources (run evs s) ! h)"
    using cancelled_run [of h s evs] assms by simp
  show ?thesis
    using withRequestToken_end_cancelled [OF c, of name payload]
      cancelled_callers(1) [OF c, of env ch doc il]
      cancelled_callers(3,4) [OF c, of env doc options]
      cancelled_callers(5,6) [OF c, of env doc rng options]
    by simp
qed

lemma traceFormatCancelled_facts:
  "length (sources traceFormatCancelled) = 1"
  "isCancellationRequested (sources traceFormatCancelled ! 0)"
  "requestTokenSource traceFormatCancelled = None"
  "effects traceFormatCancelled = []"
  by (simp_all add: traceFormatCancelled_def constructor_def examplePreferences_def
      exampleEnv_def exampleDocument_def exampleTextDocument_def
      documentFormat_begin_def withRequestToken_begin_def cancelPrevious_def
      whenSubscribed_def subscribed_def onCancelEvents_def onCursorMoved_def
      cancel_source_def onCancellationRequested_def Let_def)

text \<open>
  The document format of the example is cancelled by a cursor move; a keystroke follows;
  then the provider answers with one edit: \<open>documentFormat\<close> returns \<open>false\<close> and applies
  nothing.
\<close>

theorem cancelled_request_suppressed_witness:
  "0 < length (sources traceFormatCancelled) \<and>
   isCancellationRequested (sources traceFormatCancelled ! 0) \<and>
   fst (withRequestToken_end ''format'' 0 (Inr (Some [exampleEdit]))
          (run [(exampleEnv, InsertCharPre 5)] traceFormatCancelled)) = Inr None \<and>
   fst (documentFormat_end exampleEnv 0 exampleDocument \<lparr>tabSize = 2, insertSpaces = True\<rparr>
          (run [(exampleEnv, InsertCharPre 5)] traceFormatCancelled)) = Inr False \<and>
   filter isBufferEffect
     (effects (snd (documentFormat_end exampleEnv 0 exampleDocument
        \<lparr>tabSize = 2, insertSpaces = True\<rparr>
        (run [(exampleEnv, InsertCharPre 5)] traceFormatCancelled)))) = []"
proof -
  have 1: "0 < length (sources traceFormatCancelled)"
    by (simp add: traceFormatCancelled_facts)
  have 2: "isCancellationRequested (sources traceFormatCancelled ! 0)"
    by (simp add: traceFormatCancelled_facts)
  have 3: "effects (run [(exampleEnv, InsertCharPre 5)] traceFormatCancelled) = []"
    by (simp add: traceFormatCancelled_facts whenSubscribed_def onInsertCharPre_def)
  have 4: "fst (documentFormat_end exampleEnv 0 exampleDocument
        \<lparr>tabSize = 2, insertSpaces = True\<rparr>
        (run [(exampleEnv, InsertCharPre 5)] traceFormatCancelled)) \<noteq> Inl typeError"
    using 2
    by (simp add: documentFormat_end_def exampleEnv_def withRequestToken_end_def withRequestToken_finish_def Let_def
        whenSubscribed_def onInsertCharPre_def split: prod.splits)
  show ?thesis
    using cancelled_request_suppressed [OF 1 2, of "''format''" "Some [exampleEdit]"
        "[(exampleEnv, InsertCharPre 5)]" exampleEnv "''}''" exampleDocument False
        "\<lparr>tabSize = 2, insertSpaces = True\<rparr>"] 1 2 3 4
    by simp
qed

section \<open>What \<open>dispose\<close> releases\<close>

lemma unsubscribed_run:
  assumes "list_all (\<lambda>x. x \<notin> set (subscriptions s)) xs"
  shows "list_all (\<lambda>x. x \<notin> set (subscriptions (run evs s))) xs"
proof (rule run_preserves [where P = "\<lambda>t. list_all (\<lambda>x. x \<notin> set (subscriptions t)) xs",
    OF _ _ _ _ _ _ _ _ assms])
  fix t t' :: State
  assume "core t' = core t" "list_all (\<lambda>x. x \<notin> set (subscriptions t)) xs"
  then show "list_all (\<lambda>x. x \<notin> set (subscriptions t')) xs"
    by (simp add: core_def)
next
  fix t :: State
  assume "list_all (\<lambda>x. x \<notin> set (subscriptions t)) xs"
  then show "list_all (\<lambda>x. x \<notin> set (subscriptions (dispose t))) xs"
    by (simp add: dispose_def disposeAll_def list_all_iff)
qed (simp_all add: withRequestToken_begin_fields releaseTokenSource_fields
    onCancelEvents_fields timerFires_fields)

lemma disposablesTracked_run:
  assumes "disposablesTracked s"
  shows "disposablesTracked (run evs s)"
proof (rule run_preserves [where P = disposablesTracked, OF _ _ _ _ _ _ _ _ assms])
  fix t t' :: State
  assume "core t' = core t" "disposablesTracked t"
  then show "disposablesTracked t'"
    by (simp add: core_def disposablesTracked_def)
next
  fix t :: State
  assume "disposablesTracked t"
  then show "disposablesTracked (dispose t)"
    by (auto simp add: disposablesTracked_def dispose_def disposeAll_def list_all_iff)
qed (simp_all add: disposablesTracked_def withRequestToken_begin_fields
    releaseTokenSource_fields onCancelEvents_fields timerFires_fields)

lemma disposed_unsubscribed:
  "list_all (\<lambda>x. x \<notin> set (subscriptions (dispose (run evs (constructor config)))))
     disposableHandlers"
proof -
  have "disposablesTracked (constructor config)"
    by (simp add: disposablesTracked_def constructor_def disposableHandlers_def)
  then have "disposablesTracked (run evs (constructor config))"
    by (rule disposablesTracked_run)
  then show ?thesis
    by (auto simp add: disposablesTracked_def dispose_def disposeAll_def list_all_iff)
qed

lemma unsubscribed_step_idle:
  assumes "list_all (\<lambda>x. x \<notin> set (subscriptions t)) disposableHandlers"
    and "reachesDisposablesOnly ev"
  shows "step env ev t = t"
  using assms
  by (cases ev) (simp_all add: disposableHandlers_def whenSubscribed_def subscribed_def)

text \<open>
  C8, refuted as stated. Insert mode is left, a document format is started, and \<open>dispose\<close>
  is called while the provider has not answered. Afterwards the request is still in flight:
  its source is in the slot, neither cancelled nor disposed. And the subscription of line
  128 is still there: the next \<open>CursorMoved\<close> in that buffer runs its handler, which
  starts an on-type format.
\<close>

theorem dispose_leaves_request_and_cursor_handler:
  "inFlight traceDisposedWhileFormatting = [0] \<and>
   requestTokenSource traceDisposedWhileFormatting = Some 0 \<and>
   \<not> isCancellationRequested (sources traceDisposedWhileFormatting ! 0) \<and>
   disposeCount (sources traceDisposedWhileFormatting ! 0) = 0 \<and>
   subscriptions traceDisposedWhileFormatting = [OnCursorMoved] \<and>
   map pending_token
     (suspended (step exampleEnv (CursorMoved 1) traceDisposedWhileFormatting)) = [0, 1]"
  by (simp add: traceDisposedWhileFormatting_def inFlight_def constructor_def
      examplePreferences_def exampleEnv_def exampleDocument_def exampleTextDocument_def
      whenSubscribed_def subscribed_def onInsertLeave_def onCursorMoved_def
      documentFormat_begin_def withRequestToken_begin_def cancelPrevious_def
      dispose_def disposeAll_def startOnType_def tryFormatOnType_begin_def newline_def
      isWordAscii_def cancel_source_def dispose_source_def onCancellationRequested_def Let_def)

text \<open>
  C8, as amended. After \<open>dispose()\<close>, in whatever state the handler was, each of the seven
  subscriptions made with \<open>this.disposables\<close> (configuration change, will-save, the cancel
  handler, \<open>Enter\<close>, \<open>InsertCharPre\<close>, \<open>TextChangedI\<close>, \<open>InsertLeave\<close>) is released and stays
  released, so that an event which reaches only those handlers changes nothing any more.
  \<open>dispose()\<close> does not touch the request in flight: the slot, the token sources and the
  suspended requests are as before.
\<close>

theorem dispose_releases_disposables:
  "list_all (\<lambda>x. \<not> subscribed x (run evs' (dispose (run evs (constructor config)))))
     disposableHandlers \<and>
   (reachesDisposablesOnly ev \<longrightarrow>
      step env ev (run evs' (dispose (run evs (constructor config)))) =
      run evs' (dispose (run evs (constructor config)))) \<and>
   requestTokenSource (dispose (run evs (constructor config))) =
     requestTokenSource (run evs (constructor config)) \<and>
   sources (dispose (run evs (constructor config))) = sources (run evs (constructor config)) \<and>
   suspended (dispose (run evs (constructor config))) =
     suspended (run evs (constructor config))"
proof -
  have u: "list_all (\<lambda>x. x \<notin> set (subscriptions
      (run evs' (dispose (run evs (constructor config)))))) disposableHandlers"
    using unsubscribed_run [OF disposed_unsubscribed] .
  show ?thesis
    using u unsubscribed_step_idle [OF u, of ev env]
    by (simp add: subscribed_def dispose_fields)
qed

theorem dispose_releases_disposables_witness:
  "reachesDisposablesOnly (Enter 1) \<and>
   \<not> subscribed OnEnter (run [(exampleEnv, CallDocumentFormat)] traceDisposedWhileFormatting) \<and>
   step exampleEnv (Enter 1) (run [(exampleEnv, CallDocumentFormat)] traceDisposedWhileFormatting) =
     run [(exampleEnv, CallDocumentFormat)] traceDisposedWhileFormatting"
proof -
  have d: "traceDisposedWhileFormatting =
      dispose (run [(exampleEnv, InsertLeave 1), (exampleEnv, CallDocumentFormat)]
        (constructor examplePreferences))"
    by (simp add: traceDisposedWhileFormatting_def)
  have 1: "reachesDisposablesOnly (Enter 1)"
    by simp
  show ?thesis
    using dispose_releases_disposables [of "[(exampleEnv, CallDocumentFormat)]"
        "[(exampleEnv, InsertLeave 1), (exampleEnv, CallDocumentFormat)]"
        examplePreferences "Enter 1" exampleEnv, folded d] 1
    by (simp add: disposableHandlers_def)
qed

section \<open>The timer of the save-time format\<close>

text \<open>
  C9, refuted as stated. A save starts a save-time format, the timer fires and cancels the
  token, and then the provider answers with an edit all the same: \<open>willSaveWaitUntil\<close>
  hands that edit to \<open>event.waitUntil\<close>.
\<close>

theorem save_timeout_still_returns_edits:
  "isCancellationRequested (sources traceSaveTimedOut ! 0) \<and>
   suspended traceSaveTimedOut =
     [PendingSave 0 exampleTextDocument \<lparr>tabSize = 2, insertSpaces = True\<rparr>] \<and>
   fst (willSaveWaitUntil_end exampleEnv 0 exampleTextDocument
          \<lparr>tabSize = 2, insertSpaces = True\<rparr> traceSaveTimedOut) = Inr (Some [exampleEdit])"
  by (simp add: traceSaveTimedOut_def constructor_def examplePreferences_def
      exampleEnv_def exampleTextDocument_def whenSubscribed_def subscribed_def
      onWillSaveTextDocument_def willSaveWaitUntil_begin_def willSaveWaitUntil_end_def
      timerFires_def cancel_source_def Let_def)

lemma timers_begin [simp]:
  "timers (snd (tryFormatOnType_begin env ch bufnr s)) = timers s"
  "timers (snd (documentFormat_begin env s)) = timers s"
  "timers (snd (documentRangeFormat_begin env mode s)) = timers s"
  using tryFormatOnType_begin_cases [of env ch bufnr s]
    documentFormat_begin_cases [of env s]
    documentRangeFormat_begin_cases [of env mode s]
  by (auto simp add: withRequestToken_begin_fields)

text \<open>
  C9, as amended. When a save-time format reaches its provider call, a timer of 1000 ms is
  set for its own fresh token; when that timer fires, the token is cancelled; when the
  provider call resolves first, the timer is cleared and cancels nothing any more. The value
  handed to \<open>event.waitUntil\<close> is what the provider call settles with, whether or not the
  token has been cancelled: it is without edits exactly when the provider answers without
  edits. The other formatting paths (\<open>withRequestToken\<close>, and through it \<open>tryFormatOnType\<close>,
  \<open>documentFormat\<close> and \<open>documentRangeFormat\<close>) set no timer.
\<close>

theorem save_timer:
  "(hasFormatProvider env document \<and> getFormatOptions env (uri document) = Inr options \<longrightarrow>
      fst (willSaveWaitUntil_begin env document s) =
        Await (length (sources s), document, options) \<and>
      timers (snd (willSaveWaitUntil_begin env document s)) =
        timers s @ [(length (sources s), 1000)] \<and>
      \<not> isCancellationRequested
         (sources (snd (willSaveWaitUntil_begin env document s)) ! length (sources s))) \<and>
   (h < length (sources s) \<and> h \<in> fst ` set (timers s) \<longrightarrow>
      isCancellationRequested (sources (timerFires h s) ! h)) \<and>
   (provideDocumentFormattingEdits env document options = Inr textEdits \<longrightarrow>
      timerFires h (snd (willSaveWaitUntil_end env h document options s)) =
      snd (willSaveWaitUntil_end env h document options s)) \<and>
   fst (willSaveWaitUntil_end env h document options s) =
     provideDocumentFormattingEdits env document options \<and>
   timers (snd (withRequestToken_begin name s)) = timers s \<and>
   timers (snd (tryFormatOnType_begin env ch bufnr s)) = timers s \<and>
   timers (snd (documentFormat_begin env s)) = timers s \<and>
   timers (snd (documentRangeFormat_begin env mode s)) = timers s"
proof -
  have 1: "hasFormatProvider env document \<and> getFormatOptions env (uri document) = Inr options \<longrightarrow>
      fst (willSaveWaitUntil_begin env document s) =
        Await (length (sources s), document, options) \<and>
      timers (snd (willSaveWaitUntil_begin env document s)) =
        timers s @ [(length (sources s), 1000)] \<and>
      \<not> isCancellationRequested
         (sources (snd (willSaveWaitUntil_begin env document s)) ! length (sources s))"
    by (simp add: willSaveWaitUntil_begin_def Let_def)
  have 2: "h < length (sources s) \<and> h \<in> fst ` set (timers s) \<longrightarrow>
      isCancellationRequested (sources (timerFires h s) ! h)"
    by (simp add: timerFires_def isCancellationRequested_cancel_source)
  have 3: "fst (willSaveWaitUntil_end env h document options s) =
     provideDocumentFormattingEdits env document options"
    by (simp add: willSaveWaitUntil_end_def split: sum.splits)
  have 4: "provideDocumentFormattingEdits env document options = Inr textEdits \<longrightarrow>
      timerFires h (snd (willSaveWaitUntil_end env h document options s)) =
      snd (willSaveWaitUntil_end env h document options s)"
    by (auto simp add: willSaveWaitUntil_end_def timerFires_def)
  show ?thesis
    using 1 2 3 4 by (simp add: withRequestToken_begin_fields)
qed

theorem save_timer_witness:
  "hasFormatProvider exampleEnv exampleTextDocument \<and>
   getFormatOptions exampleEnv (uri exampleTextDocument) =
     Inr \<lparr>tabSize = 2, insertSpaces = True\<rparr> \<and>
   timers (snd (willSaveWaitUntil_begin exampleEnv exampleTextDocument
     (constructor examplePreferences))) = [(0, 1000)] \<and>
   0 < length (sources (snd (willSaveWaitUntil_begin exampleEnv exampleTextDocument
     (constructor examplePreferences)))) \<and>
   isCancellationRequested (sources (timerFires 0
     (snd (willSaveWaitUntil_begin exampleEnv exampleTextDocument
       (constructor examplePreferences)))) ! 0)"
proof -
  have 1: "hasFormatProvider exampleEnv exampleTextDocument \<and>
      getFormatOptions exampleEnv (uri exampleTextDocument) =
      Inr \<lparr>tabSize = 2, insertSpaces = True\<rparr>"
    by (simp add: exampleEnv_def)
  have 2: "sources (constructor examplePreferences) = []"
      "timers (constructor examplePreferences) = []"
    by (simp_all add: constructor_def)
  have 3: "0 < length (sources (snd (willSaveWaitUntil_begin exampleEnv exampleTextDocument
      (constructor examplePreferences))))"
    using 1 by (simp add: willSaveWaitUntil_begin_def Let_def)
  show ?thesis
    using save_timer [of exampleEnv exampleTextDocument "\<lparr>tabSize = 2, insertSpaces = True\<rparr>"
        "constructor examplePreferences"]
      save_timer [of exampleEnv exampleTextDocument "\<lparr>tabSize = 2, insertSpaces = True\<rparr>"
        "snd (willSaveWaitUntil_begin exampleEnv exampleTextDocument
          (constructor examplePreferences))" 0]
      1 2 3
    by simp
qed

section \<open>The debounce of \<open>TextChangedI\<close>\<close>

lemma lastInsert_sources [simp]:
  "lastInsert (cancel_source c s) = lastInsert s"
  "lastInsert (dispose_source c s) = lastInsert s"
  "lastInsert (emit es s) = lastInsert s"
  by (simp_all add: cancel_source_def dispose_source_def onCancellationRequested_def emit_def
      Let_def split: option.splits)

lemma lastInsert_onCancelEvents [simp]:
  "lastInsert (whenSubscribed OnCancelEvents onCancelEvents s) = lastInsert s"
  by (simp add: whenSubscribed_def onCancelEvents_def split: option.splits)

lemma lastInsert_withRequestToken_begin [simp]:
  "lastInsert (snd (withRequestToken_begin name s)) = lastInsert s"
  by (simp add: withRequestToken_begin_def cancelPrevious_def Let_def split: option.splits)

lemma lastInsert_bracketEnter [simp]:
  "lastInsert (snd (bracketEnter env b s)) = lastInsert s"
  by (simp add: bracketEnter_def Let_def split: sum.splits option.splits prod.splits)

lemma lastInsert_startOnType [simp]:
  "lastInsert (startOnType env ch b il br s) = lastInsert s"
  using tryFormatOnType_begin_cases [of env ch b s]
  by (auto simp add: startOnType_def)

text \<open>
  C4. A \<open>TextChangedI\<close> event at time \<open>now\<close> in a buffer whose document is attached and is
  not the command line. If a keystroke time \<open>T1\<close> is recorded (\<open>Date.now()\<close> is never \<open>0\<close>),
  \<open>now - T1\<close> is at most 300, the last character of \<open>info.pre\<close> is not a word character and
  \<open>formatOnType\<close> is set, the handler clears \<open>T1\<close> and calls \<open>tryFormatOnType\<close> once, with that
  character and that buffer; \<open>T1\<close> is still cleared when the whole event has been handled,
  and a second \<open>TextChangedI\<close> then calls nothing. If no \<open>T1\<close> is recorded, or \<open>now - T1\<close>
  exceeds 300, the handler calls nothing.
\<close>

theorem debounce:
  assumes "getDocument env bufnr = Some doc"
    and "attached doc"
    and "\<not> isCommandLine doc"
  shows "(lastInsert s = Some T1 \<and> T1 \<noteq> 0 \<and> now - T1 \<le> 300 \<and> pre \<noteq> [] \<and>
          \<not> isWord env [last pre] \<and> formatOnType (preferences s) \<longrightarrow>
            fst (onTextChangedI env now bufnr pre s) = Some ([last pre], bufnr) \<and>
            lastInsert (snd (onTextChangedI env now bufnr pre s)) = None \<and>
            (subscribed OnTextChangedI s \<longrightarrow>
               lastInsert (step env (TextChangedI now bufnr pre) s) = None) \<and>
            fst (onTextChangedI env' now' bufnr' pre'
                   (snd (onTextChangedI env now bufnr pre s))) = None) \<and>
         (lastInsert s = None \<or> (lastInsert s = Some T1 \<and> now - T1 > 300) \<longrightarrow>
            fst (onTextChangedI env now bufnr pre s) = None)"
proof -
  have none: "fst (onTextChangedI e n b p t) = None" if "lastInsert t = None" for e n b p t
    using that by (simp add: onTextChangedI_def Let_def)
  have late: "lastInsert s = Some T1 \<and> now - T1 > 300 \<longrightarrow>
      fst (onTextChangedI env now bufnr pre s) = None"
    by (simp add: onTextChangedI_def Let_def)
  have fire: "fst (onTextChangedI env now bufnr pre s) = Some ([last pre], bufnr) \<and>
      lastInsert (snd (onTextChangedI env now bufnr pre s)) = None"
    if "lastInsert s = Some T1" "T1 \<noteq> 0" "now - T1 \<le> 300" "pre \<noteq> []"
      "\<not> isWord env [last pre]" "formatOnType (preferences s)"
    using that assms by (simp add: onTextChangedI_def Let_def)
  have cleared: "lastInsert (snd (onTextChangedI env now bufnr pre t)) = None"
    if "lastInsert t = Some T1" "T1 \<noteq> 0" "now - T1 \<le> 300" for t
    using that assms by (simp add: onTextChangedI_def Let_def)
  have stepped: "lastInsert (step env (TextChangedI now bufnr pre) s) = None"
    if "lastInsert s = Some T1" "T1 \<noteq> 0" "now - T1 \<le> 300" "subscribed OnTextChangedI s"
  proof -
    let ?t = "whenSubscribed OnCancelEvents onCancelEvents s"
    have sub: "subscribed OnTextChangedI ?t"
      using that(4)
      by (simp add: whenSubscribed_def subscribed_def onCancelEvents_fields)
    have "lastInsert (snd (onTextChangedI env now bufnr pre ?t)) = None"
      using cleared [of ?t] that by simp
    moreover have "step env (TextChangedI now bufnr pre) s =
        (case onTextChangedI env now bufnr pre ?t of
           (Some (ch, b), s2) \<Rightarrow> startOnType env ch b False False s2
         | (None, s2) \<Rightarrow> s2)"
      using sub by (simp add: whenSubscribed_def [of OnTextChangedI])
    ultimately show ?thesis
      by (cases "onTextChangedI env now bufnr pre ?t") (auto split: option.splits)
  qed
  show ?thesis
    using none [of s env now bufnr pre]
      none [of "snd (onTextChangedI env now bufnr pre s)" env' now' bufnr' pre']
      late fire stepped
    by auto
qed

text \<open>
  A keystroke at time 1000 and the change event at time 1100, after a typed \<open>;\<close>: one call
  of \<open>tryFormatOnType\<close>. The same change event at time 1301: none.
\<close>

theorem debounce_witness:
  "getDocument exampleEnv 1 = Some exampleDocument \<and>
   attached exampleDocument \<and> \<not> isCommandLine exampleDocument \<and>
   fst (onTextChangedI exampleEnv 1100 1 ''x = 1;''
          (onInsertCharPre 1000 (constructor examplePreferences))) = Some ('';'', 1) \<and>
   fst (onTextChangedI exampleEnv 1200 1 ''x = 1;''
          (snd (onTextChangedI exampleEnv 1100 1 ''x = 1;''
             (onInsertCharPre 1000 (constructor examplePreferences))))) = None \<and>
   fst (onTextChangedI exampleEnv 1301 1 ''x = 1;''
          (onInsertCharPre 1000 (constructor examplePreferences))) = None"
proof -
  let ?s = "onInsertCharPre 1000 (constructor examplePreferences)"
  have 1: "getDocument exampleEnv 1 = Some exampleDocument"
    by (simp add: exampleEnv_def)
  have 2: "attached exampleDocument"
    by (simp add: exampleDocument_def)
  have 3: "\<not> isCommandLine exampleDocument"
    by (simp add: exampleDocument_def)
  have 4: "lastInsert ?s = Some 1000" "formatOnType (preferences ?s)"
    "\<not> isWord exampleEnv [last ''x = 1;'']"
    by (simp_all add: onInsertCharPre_def constructor_def examplePreferences_def
        exampleEnv_def isWordAscii_def)
  show ?thesis
    using debounce [OF 1 2 3, of ?s 1000 1100 "''x = 1;''" exampleEnv 1200 1 "''x = 1;''"]
      debounce [OF 1 2 3, of ?s 1000 1301 "''x = 1;''"] 1 2 3 4
    by simp
qed

section \<open>When the bracket-enter helper fires\<close>

lemma pairs_keys:
  "pairs p = Some q \<Longrightarrow>
   (p, q) \<in> {(CHR ''<'', CHR ''>''), (CHR ''>'', CHR ''<''), (CHR ''{'', CHR ''}''),
             (CHR ''['', CHR '']''), (CHR ''('', CHR '')'')}"
  by (simp add: pairs_def split: if_splits)

lemma pairs_not_blank: "isWhiteSpace p \<Longrightarrow> pairs p = None"
proof (cases "pairs p")
  case None
  then show ?thesis by simp
next
  case (Some q)
  assume "isWhiteSpace p"
  then show ?thesis
    using pairs_keys [OF Some] by (auto simp add: isWhiteSpace_def)
qed

lemma bracketEnter_idle_unless:
  assumes "nvimLine env = Inr l"
    and "getDocument env bufnr = Some doc"
    and "snd (bracketEnter env bufnr s) \<noteq> s"
  shows "\<exists>p q. lastChar (getline doc (l - 2)) = Some p \<and> pairs p = Some q \<and>
               firstChar (trim (getline doc (l - 1))) = Some q"
proof (rule ccontr)
  assume "\<not> ?thesis"
  then have "snd (bracketEnter env bufnr s) = s"
    using assms(1,2)
    by (auto simp add: bracketEnter_def Let_def split: option.splits)
  then show False
    using assms(3) by simp
qed

lemma bracketEnter_fires:
  assumes "nvimLine env = Inr l"
    and "getDocument env bufnr = Some doc"
    and "lastChar (getline doc (l - 2)) = Some p"
    and "pairs p = Some q"
    and "firstChar (trim (getline doc (l - 1))) = Some q"
    and "getFormatOptions env (uri (textDocument doc)) = Inr opts"
    and "applyEdits env doc (fst (bracketEnterEdits doc (l - 1) opts)) = None"
    and "moveTo env (snd (bracketEnterEdits doc (l - 1) opts)) = None"
  shows "bracketEnter env bufnr s =
     (Inr (), emit [MoveTo (snd (bracketEnterEdits doc (l - 1) opts))]
        (emit [ApplyEdits (uri (textDocument doc)) (fst (bracketEnterEdits doc (l - 1) opts))] s))"
  using assms
  by (simp add: bracketEnter_def Let_def case_prod_beta)


text \<open>
  C6, refuted as stated. The previous line is \<open>f(x) { \<close>, with a blank after the opening
  brace, and the current line is \<open>}\<close>: the last non-blank character of the previous line is
  \<open>{\<close> and the first non-blank character of the current line is its partner \<open>}\<close>, and yet the
  helper does nothing.
\<close>

theorem trailing_blank_stops_bracket_helper:
  "lastChar (trim (getline trailingBlankDocument 0)) = Some CHR ''{'' \<and>
   pairs CHR ''{'' = Some CHR ''}'' \<and>
   firstChar (trim (getline trailingBlankDocument 1)) = Some CHR ''}'' \<and>
   bracketEnter trailingBlankEnv 1 (constructor examplePreferences) =
     (Inr (), constructor examplePreferences)"
  by (simp add: trailingBlankEnv_def trailingBlankDocument_def exampleEnv_def
      bracketEnter_def lastChar_def firstChar_def trim_def isWhiteSpace_def pairs_def Let_def)

text \<open>
  C6, as amended. With the current line \<open>l\<close> (one-based) reported by the editor and the
  buffer's document found, the helper changes nothing unless the last character of the
  previous line, blank or not, is a key of the pair table and the first non-blank character
  of the current line is the value the table gives for it. A blank at the end of the
  previous line therefore stops it. When the condition holds and the format options, the
  edit application and the cursor move succeed, it applies its edits and moves the cursor.
\<close>

theorem bracket_helper_condition:
  assumes "nvimLine env = Inr l"
    and "getDocument env bufnr = Some doc"
  shows "(snd (bracketEnter env bufnr s) \<noteq> s \<longrightarrow>
            (\<exists>p q. lastChar (getline doc (l - 2)) = Some p \<and> pairs p = Some q \<and>
                   firstChar (trim (getline doc (l - 1))) = Some q)) \<and>
         (getline doc (l - 2) \<noteq> [] \<and> isWhiteSpace (last (getline doc (l - 2))) \<longrightarrow>
            bracketEnter env bufnr s = (Inr (), s)) \<and>
         (lastChar (getline doc (l - 2)) = Some p \<and> pairs p = Some q \<and>
          firstChar (trim (getline doc (l - 1))) = Some q \<and>
          getFormatOptions env (uri (textDocument doc)) = Inr opts \<and>
          applyEdits env doc (fst (bracketEnterEdits doc (l - 1) opts)) = None \<and>
          moveTo env (snd (bracketEnterEdits doc (l - 1) opts)) = None \<longrightarrow>
            effects (snd (bracketEnter env bufnr s)) =
              effects s @
              [ApplyEdits (uri (textDocument doc)) (fst (bracketEnterEdits doc (l - 1) opts)),
               MoveTo (snd (bracketEnterEdits doc (l - 1) opts))])"
proof -
  have blank: "bracketEnter env bufnr s = (Inr (), s)"
    if "getline doc (l - 2) \<noteq> []" "isWhiteSpace (last (getline doc (l - 2)))"
    using that assms pairs_not_blank [OF that(2)]
    by (simp add: bracketEnter_def lastChar_def Let_def)
  show ?thesis
    using bracketEnter_idle_unless [OF assms, of s] blank
      bracketEnter_fires [OF assms, of p q opts s]
    by (auto simp add: emit_def)
qed

text \<open>
  With \<open>f(x) {\<close> above \<open>}\<close> the helper fires: the closing brace keeps its indent and a line
  indented by two spaces is inserted. With \<open>f(x) { \<close> above \<open>}\<close> it does not.
\<close>

theorem bracket_helper_condition_witness:
  "nvimLine exampleEnv = Inr 2 \<and> getDocument exampleEnv 1 = Some exampleDocument \<and>
   lastChar (getline exampleDocument (2 - 2)) = Some CHR ''{'' \<and>
   pairs CHR ''{'' = Some CHR ''}'' \<and>
   firstChar (trim (getline exampleDocument (2 - 1))) = Some CHR ''}'' \<and>
   effects (snd (bracketEnter exampleEnv 1 (constructor examplePreferences))) =
     [ApplyEdits ''file:///a.ts''
        [\<lparr>edit_range = \<lparr>start = \<lparr>line = 0, character = 6\<rparr>,
                        endp = \<lparr>line = 0, character = 6\<rparr>\<rparr>,
          newText = newline @ ''  ''\<rparr>],
      MoveTo \<lparr>line = 1, character = 2\<rparr>] \<and>
   nvimLine trailingBlankEnv = Inr 2 \<and>
   getDocument trailingBlankEnv 1 = Some trailingBlankDocument \<and>
   isWhiteSpace (last (getline trailingBlankDocument (2 - 2))) \<and>
   bracketEnter trailingBlankEnv 1 (constructor examplePreferences) =
     (Inr (), constructor examplePreferences)"
proof -
  have 1: "nvimLine exampleEnv = Inr 2" "getDocument exampleEnv 1 = Some exampleDocument"
    by (simp_all add: exampleEnv_def)
  have 2: "lastChar (getline exampleDocument (2 - 2)) = Some CHR ''{''"
    "pairs CHR ''{'' = Some CHR ''}''"
    "firstChar (trim (getline exampleDocument (2 - 1))) = Some CHR ''}''"
    by (simp_all add: exampleDocument_def lastChar_def firstChar_def trim_def pairs_def
        isWhiteSpace_def)
  have 3: "getFormatOptions exampleEnv (uri (textDocument exampleDocument)) =
      Inr \<lparr>tabSize = 2, insertSpaces = True\<rparr>"
    "\<And>es. applyEdits exampleEnv exampleDocument es = None"
    "\<And>c. moveTo exampleEnv c = None"
    by (simp_all add: exampleEnv_def)
  have 4: "bracketEnterEdits exampleDocument (2 - 1) \<lparr>tabSize = 2, insertSpaces = True\<rparr> =
      ([\<lparr>edit_range = \<lparr>start = \<lparr>line = 0, character = 6\<rparr>,
                        endp = \<lparr>line = 0, character = 6\<rparr>\<rparr>,
          newText = newline @ ''  ''\<rparr>], \<lparr>line = 1, character = 2\<rparr>)"
    by (simp add: bracketEnterEdits_def exampleDocument_def leadingWhiteSpace_def
        isWhiteSpace_def newline_def numeral_2_eq_2 Let_def)
  have 5: "nvimLine trailingBlankEnv = Inr 2"
    "getDocument trailingBlankEnv 1 = Some trailingBlankDocument"
    by (simp_all add: trailingBlankEnv_def exampleEnv_def)
  have 6: "getline trailingBlankDocument (2 - 2) \<noteq> []"
    "isWhiteSpace (last (getline trailingBlankDocument (2 - 2)))"
    by (simp_all add: trailingBlankDocument_def isWhiteSpace_def)
  have 7: "effects (constructor examplePreferences) = []"
    "uri (textDocument exampleDocument) = ''file:///a.ts''"
    by (simp_all add: constructor_def exampleDocument_def exampleTextDocument_def)
  show ?thesis
    using bracket_helper_condition [OF 1, of "constructor examplePreferences"
        "CHR ''{''" "CHR ''}''" "\<lparr>tabSize = 2, insertSpaces = True\<rparr>"]
      bracket_helper_condition [OF 5, of "constructor examplePreferences"]
      1 2 3 4 5 6 7
    by simp
qed

section \<open>The closing angle bracket as a key of the pair table\<close>




section \<open>What the commands return and what they let through\<close>

lemma withRequestToken_end_buffer:
  fixes outcome :: "thrown + 'a option"
  shows "filter isBufferEffect (effects (snd (withRequestToken_end name h outcome s))) =
         filter isBufferEffect (effects s)"
proof (cases outcome)
  case (Inl e)
  then show ?thesis
    by (cases e) (simp_all add: withRequestToken_end_def withRequestToken_finish_def Let_def emit_def)
next
  case (Inr payload)
  then show ?thesis
    by (simp add: withRequestToken_end_def withRequestToken_finish_def Let_def emit_def)
qed

lemma withRequestToken_end_caught:
  "fst (withRequestToken_end name h (Inl (Thrown m) :: thrown + 'a option) s) = Inr None"
  by (simp add: withRequestToken_end_def withRequestToken_finish_def Let_def)

lemma documentFormat_end_result:
  shows "provideDocumentFormattingEdits env (textDocument doc) options = Inl (Thrown m) \<longrightarrow>
      fst (documentFormat_end env h doc options s) = Inr False \<and>
      effects (snd (documentFormat_end env h doc options s)) =
        effects s @ [ShowMessage m, LogError ''Error on format''] @
        (if isCancellationRequested (sources s ! h) then []
         else [LogWarn ''format provider not found!''])"
    and "fst (documentFormat_end env h doc options s) = Inr b \<longrightarrow>
      b = (filter isBufferEffect (effects (snd (documentFormat_end env h doc options s))) \<noteq>
           filter isBufferEffect (effects s))"
proof -
  obtain r t where w: "withRequestToken_end ''format'' h
      (provideDocumentFormattingEdits env (textDocument doc) options) s = (r, t)"
    by (cases "withRequestToken_end ''format'' h
      (provideDocumentFormattingEdits env (textDocument doc) options) s")
  have buf: "filter isBufferEffect (effects t) = filter isBufferEffect (effects s)"
    using withRequestToken_end_buffer [of "''format''" h
        "provideDocumentFormattingEdits env (textDocument doc) options" s] w
    by simp
  have caught: "provideDocumentFormattingEdits env (textDocument doc) options = Inl (Thrown m)
      \<Longrightarrow> r = Inr None"
    using withRequestToken_end_caught [where ?'a = "TextEdit list", of "''format''" h m s] w
    by simp
  show "provideDocumentFormattingEdits env (textDocument doc) options = Inl (Thrown m) \<longrightarrow>
      fst (documentFormat_end env h doc options s) = Inr False \<and>
      effects (snd (documentFormat_end env h doc options s)) =
        effects s @ [ShowMessage m, LogError ''Error on format''] @
        (if isCancellationRequested (sources s ! h) then []
         else [LogWarn ''format provider not found!''])"
    by (simp add: documentFormat_end_def withRequestToken_end_def withRequestToken_finish_def
        Let_def emit_def)
  show "fst (documentFormat_end env h doc options s) = Inr b \<longrightarrow>
      b = (filter isBufferEffect (effects (snd (documentFormat_end env h doc options s))) \<noteq>
           filter isBufferEffect (effects s))"
    using buf w
    by (auto simp add: documentFormat_end_def emit_def split: sum.splits option.splits)
qed

lemma documentRangeFormat_end_result:
  shows "provideDocumentRangeFormattingEdits env (textDocument doc) rng options =
      Inl (Thrown m) \<longrightarrow>
      fst (documentRangeFormat_end env h doc rng options s) = Inr (- 1) \<and>
      effects (snd (documentRangeFormat_end env h doc rng options s)) =
        effects s @ [ShowMessage m, LogError ''Error on format''] @
        (if isCancellationRequested (sources s ! h) then []
         else [LogWarn ''format provider not found!''])"
    and "fst (documentRangeFormat_end env h doc rng options s) = Inr r \<longrightarrow>
      (r = 0 \<or> r = - 1) \<and>
      (r = 0) =
        (filter isBufferEffect (effects (snd (documentRangeFormat_end env h doc rng options s))) \<noteq>
         filter isBufferEffect (effects s))"
proof -
  obtain r' t where w: "withRequestToken_end ''format'' h
      (provideDocumentRangeFormattingEdits env (textDocument doc) rng options) s = (r', t)"
    by (cases "withRequestToken_end ''format'' h
      (provideDocumentRangeFormattingEdits env (textDocument doc) rng options) s")
  have buf: "filter isBufferEffect (effects t) = filter isBufferEffect (effects s)"
    using withRequestToken_end_buffer [of "''format''" h
        "provideDocumentRangeFormattingEdits env (textDocument doc) rng options" s] w
    by simp
  have caught:
    "provideDocumentRangeFormattingEdits env (textDocument doc) rng options = Inl (Thrown m)
      \<Longrightarrow> r' = Inr None"
    using withRequestToken_end_caught [where ?'a = "TextEdit list", of "''format''" h m s] w
    by simp
  show "provideDocumentRangeFormattingEdits env (textDocument doc) rng options =
      Inl (Thrown m) \<longrightarrow>
      fst (documentRangeFormat_end env h doc rng options s) = Inr (- 1) \<and>
      effects (snd (documentRangeFormat_end env h doc rng options s)) =
        effects s @ [ShowMessage m, LogError ''Error on format''] @
        (if isCancellationRequested (sources s ! h) then []
         else [LogWarn ''format provider not found!''])"
    by (simp add: documentRangeFormat_end_def withRequestToken_end_def
        withRequestToken_finish_def Let_def emit_def)
  show "fst (documentRangeFormat_end env h doc rng options s) = Inr r \<longrightarrow>
      (r = 0 \<or> r = - 1) \<and>
      (r = 0) =
        (filter isBufferEffect (effects (snd (documentRangeFormat_end env h doc rng options s))) \<noteq>
         filter isBufferEffect (effects s))"
    using buf w
    by (auto simp add: documentRangeFormat_end_def emit_def split: sum.splits option.splits)
qed

lemma commands_begin_result:
  shows "fst (documentFormat_begin env s) = Done (Inr b) \<longrightarrow> \<not> b"
    and "fst (documentRangeFormat_begin env mode s) = Done (Inr r) \<longrightarrow> r = - 1"
  by (auto simp add: documentFormat_begin_def documentRangeFormat_begin_def resolveRange_def
      Let_def split: sum.splits option.splits prod.splits if_splits)

lemma commands_begin_propagate:
  shows "workspaceDocument env = Inl e \<longrightarrow>
      fst (documentFormat_begin env s) = Done (Inl e) \<and>
      fst (documentRangeFormat_begin env mode s) = Done (Inl e)"
    and "workspaceDocument env = Inr (Some doc) \<and> attached doc \<and>
      synchronizeDocument env doc = Some e \<longrightarrow>
      fst (documentFormat_begin env s) = Done (Inl e) \<and>
      fst (documentRangeFormat_begin env mode s) = Done (Inl e)"
    and "workspaceDocument env = Inr (Some doc) \<and> attached doc \<and>
      synchronizeDocument env doc = None \<and>
      getFormatOptions env (uri (textDocument doc)) = Inl e \<longrightarrow>
      fst (documentFormat_begin env s) = Done (Inl e)"
    and "workspaceDocument env = Inr (Some doc) \<and> attached doc \<and>
      synchronizeDocument env doc = None \<and> resolveRange env mode doc = Inl (Inl e) \<longrightarrow>
      fst (documentRangeFormat_begin env mode s) = Done (Inl e)"
    and "workspaceDocument env = Inr (Some doc) \<and> attached doc \<and>
      synchronizeDocument env doc = None \<and> resolveRange env mode doc = Inr rng \<and>
      getFormatOptions env (uri (textDocument doc)) = Inl e \<longrightarrow>
      fst (documentRangeFormat_begin env mode s) = Done (Inl e)"
  by (simp_all add: documentFormat_begin_def documentRangeFormat_begin_def)

lemma commands_end_propagate:
  "\<not> isCancellationRequested (sources s ! h) \<and> edits \<noteq> [] \<and>
   applyEdits env doc edits = Some e \<longrightarrow>
     (provideDocumentFormattingEdits env (textDocument doc) options = Inr (Some edits) \<longrightarrow>
        fst (documentFormat_end env h doc options s) = Inl e) \<and>
     (provideDocumentRangeFormattingEdits env (textDocument doc) rng options =
        Inr (Some edits) \<longrightarrow>
        fst (documentRangeFormat_end env h doc rng options s) = Inl e)"
proof
  assume a: "\<not> isCancellationRequested (sources s ! h) \<and> edits \<noteq> [] \<and>
    applyEdits env doc edits = Some e"
  then have live: "\<not> isCancellationRequested (sources s ! h)"
    by simp
  show "(provideDocumentFormattingEdits env (textDocument doc) options = Inr (Some edits) \<longrightarrow>
        fst (documentFormat_end env h doc options s) = Inl e) \<and>
     (provideDocumentRangeFormattingEdits env (textDocument doc) rng options =
        Inr (Some edits) \<longrightarrow>
        fst (documentRangeFormat_end env h doc rng options s) = Inl e)"
    using a withRequestToken_end_live(1) [OF live, of "''format''" edits]
    by (auto simp add: documentFormat_end_def documentRangeFormat_end_def
        split: prod.splits sum.splits option.splits)
qed

text \<open>
  C7, refuted as stated. When \<open>synchronizeDocument\<close> throws, both commands settle with the
  thrown value: it propagates to their caller.
\<close>

theorem failing_synchronization_propagates:
  "fst (documentFormat_begin syncFailsEnv (constructor examplePreferences)) =
     Done (Inl (Thrown (Some ''sync failed''))) \<and>
   fst (documentRangeFormat_begin syncFailsEnv None (constructor examplePreferences)) =
     Done (Inl (Thrown (Some ''sync failed'')))"
  by (simp add: documentFormat_begin_def documentRangeFormat_begin_def syncFailsEnv_def
      exampleEnv_def exampleDocument_def)

text \<open>
  C7, as amended. A failure of the provider call (a rejection with a value that is not
  nullish) does not propagate: its message is shown as an error message and the error is
  logged (followed, unless the request has been cancelled, by the warning that the provider
  was not found, and by nothing else), \<open>documentFormat\<close> returns \<open>false\<close> and
  \<open>documentRangeFormat\<close> returns \<open>-1\<close>. A failure of the document access, of the synchronization, of the range
  resolution, of the option lookup or of the edit application is not caught: the command
  settles with the thrown value. Whenever a command returns, \<open>documentFormat\<close> returns a
  boolean and \<open>documentRangeFormat\<close> returns \<open>0\<close> or \<open>-1\<close>, and the value is \<open>true\<close>,
  respectively \<open>0\<close>, exactly when edits were applied.
\<close>

theorem commands_catch_provider_failure:
  "(provideDocumentFormattingEdits env (textDocument doc) options = Inl (Thrown m) \<longrightarrow>
      fst (documentFormat_end env h doc options s) = Inr False \<and>
      effects (snd (documentFormat_end env h doc options s)) =
        effects s @ [ShowMessage m, LogError ''Error on format''] @
        (if isCancellationRequested (sources s ! h) then []
         else [LogWarn ''format provider not found!''])) \<and>
   (provideDocumentRangeFormattingEdits env (textDocument doc) rng options = Inl (Thrown m) \<longrightarrow>
      fst (documentRangeFormat_end env h doc rng options s) = Inr (- 1) \<and>
      effects (snd (documentRangeFormat_end env h doc rng options s)) =
        effects s @ [ShowMessage m, LogError ''Error on format''] @
        (if isCancellationRequested (sources s ! h) then []
         else [LogWarn ''format provider not found!''])) \<and>
   (workspaceDocument env = Inl e \<longrightarrow>
      fst (documentFormat_begin env s) = Done (Inl e) \<and>
      fst (documentRangeFormat_begin env mode s) = Done (Inl e)) \<and>
   (workspaceDocument env = Inr (Some doc) \<and> attached doc \<and>
    synchronizeDocument env doc = Some e \<longrightarrow>
      fst (documentFormat_begin env s) = Done (Inl e) \<and>
      fst (documentRangeFormat_begin env mode s) = Done (Inl e)) \<and>
   (workspaceDocument env = Inr (Some doc) \<and> attached doc \<and>
    synchronizeDocument env doc = None \<and>
    getFormatOptions env (uri (textDocument doc)) = Inl e \<longrightarrow>
      fst (documentFormat_begin env s) = Done (Inl e)) \<and>
   (workspaceDocument env = Inr (Some doc) \<and> attached doc \<and>
    synchronizeDocument env doc = None \<and> resolveRange env mode doc = Inl (Inl e) \<longrightarrow>
      fst (documentRangeFormat_begin env mode s) = Done (Inl e)) \<and>
   (workspaceDocument env = Inr (Some doc) \<and> attached doc \<and>
    synchronizeDocument env doc = None \<and> resolveRange env mode doc = Inr rng \<and>
    getFormatOptions env (uri (textDocument doc)) = Inl e \<longrightarrow>
      fst (documentRangeFormat_begin env mode s) = Done (Inl e)) \<and>
   (\<not> isCancellationRequested (sources s ! h) \<and> edits \<noteq> [] \<and>
    applyEdits env doc edits = Some e \<longrightarrow>
      (provideDocumentFormattingEdits env (textDocument doc) options = Inr (Some edits) \<longrightarrow>
         fst (documentFormat_end env h doc options s) = Inl e) \<and>
      (provideDocumentRangeFormattingEdits env (textDocument doc) rng options =
         Inr (Some edits) \<longrightarrow>
         fst (documentRangeFormat_end env h doc rng options s) = Inl e)) \<and>
   (fst (documentFormat_begin env s) = Done (Inr b) \<longrightarrow> \<not> b) \<and>
   (fst (documentRangeFormat_begin env mode s) = Done (Inr r) \<longrightarrow> r = - 1) \<and>
   (fst (documentFormat_end env h doc options s) = Inr b \<longrightarrow>
      b = (filter isBufferEffect (effects (snd (documentFormat_end env h doc options s))) \<noteq>
           filter isBufferEffect (effects s))) \<and>
   (fst (documentRangeFormat_end env h doc rng options s) = Inr r \<longrightarrow>
      (r = 0 \<or> r = - 1) \<and>
      (r = 0) =
        (filter isBufferEffect (effects (snd (documentRangeFormat_end env h doc rng options s))) \<noteq>
         filter isBufferEffect (effects s)))"
  by (intro conjI)
     (fact documentFormat_end_result documentRangeFormat_end_result
        commands_begin_propagate commands_end_propagate commands_begin_result)+

lemma traceFormatStarted_effects: "effects traceFormatStarted = []"
  by (simp add: traceFormatStarted_def constructor_def examplePreferences_def
      exampleEnv_def exampleDocument_def exampleTextDocument_def
      documentFormat_begin_def withRequestToken_begin_def cancelPrevious_def Let_def)

text \<open>
  The document format of the example is under way. If the provider rejects, the message is
  shown, the error is logged and the command returns \<open>false\<close>; if it answers with the example edit, the command returns \<open>true\<close> and
  the edit has been applied. If \<open>synchronizeDocument\<close> throws, the thrown value comes out.
\<close>

theorem commands_catch_provider_failure_witness:
  "provideDocumentFormattingEdits providerFailsEnv (textDocument exampleDocument)
     \<lparr>tabSize = 2, insertSpaces = True\<rparr> = Inl (Thrown (Some ''provider failed'')) \<and>
   fst (documentFormat_end providerFailsEnv 0 exampleDocument
     \<lparr>tabSize = 2, insertSpaces = True\<rparr> traceFormatStarted) = Inr False \<and>
   effects (snd (documentFormat_end providerFailsEnv 0 exampleDocument
     \<lparr>tabSize = 2, insertSpaces = True\<rparr> traceFormatStarted)) =
     [ShowMessage (Some ''provider failed''), LogError ''Error on format'',
      LogWarn ''format provider not found!''] \<and>
   fst (documentFormat_end exampleEnv 0 exampleDocument
     \<lparr>tabSize = 2, insertSpaces = True\<rparr> traceFormatStarted) = Inr True \<and>
   filter isBufferEffect (effects (snd (documentFormat_end exampleEnv 0 exampleDocument
     \<lparr>tabSize = 2, insertSpaces = True\<rparr> traceFormatStarted))) \<noteq> [] \<and>
   workspaceDocument syncFailsEnv = Inr (Some exampleDocument) \<and> attached exampleDocument \<and>
   synchronizeDocument syncFailsEnv exampleDocument = Some (Thrown (Some ''sync failed'')) \<and>
   fst (documentFormat_begin syncFailsEnv (constructor examplePreferences)) =
     Done (Inl (Thrown (Some ''sync failed'')))"
proof -
  have 1: "provideDocumentFormattingEdits providerFailsEnv (textDocument exampleDocument)
     \<lparr>tabSize = 2, insertSpaces = True\<rparr> = Inl (Thrown (Some ''provider failed''))"
    by (simp add: providerFailsEnv_def exampleEnv_def)
  have 2: "fst (documentFormat_end exampleEnv 0 exampleDocument
     \<lparr>tabSize = 2, insertSpaces = True\<rparr> traceFormatStarted) = Inr True"
    using traceFormatStarted_slot
    by (simp add: documentFormat_end_def exampleEnv_def withRequestToken_end_def withRequestToken_finish_def
        releaseTokenSource_def Let_def)
  have 3: "workspaceDocument syncFailsEnv = Inr (Some exampleDocument)"
    "attached exampleDocument"
    "synchronizeDocument syncFailsEnv exampleDocument = Some (Thrown (Some ''sync failed''))"
    by (simp_all add: syncFailsEnv_def exampleEnv_def exampleDocument_def)
  show ?thesis
    using commands_catch_provider_failure [where env = providerFailsEnv
        and doc = exampleDocument and options = "\<lparr>tabSize = 2, insertSpaces = True\<rparr>"
        and m = "Some ''provider failed''" and h = 0 and s = traceFormatStarted]
      commands_catch_provider_failure [where env = exampleEnv
        and doc = exampleDocument and options = "\<lparr>tabSize = 2, insertSpaces = True\<rparr>"
        and h = 0 and s = traceFormatStarted and b = True]
      commands_catch_provider_failure [where env = syncFailsEnv
        and doc = exampleDocument and e = "Thrown (Some ''sync failed'')"
        and s = "constructor examplePreferences"]
      1 2 3 traceFormatStarted_effects traceFormatStarted_slot(4)
    by simp
qed


end
